theory Spec2Isabelle
  imports Complex_Main
begin

section \<open>JavaScript values, as far as the library looks at them\<close>

text \<open>
  The library receives thrown values of type \<open>unknown\<close> and only ever classifies them
  (\<open>typeof\<close>, \<open>instanceof\<close>, \<open>== null\<close>, truthiness) and converts them to strings
  (\<open>JSON.stringify\<close>, \<open>String\<close>, template literals). A value is therefore modelled
  by exactly what these operations observe.

  A number is given by its canonical rendering (what \<open>String(n)\<close> yields, e.g. \<open>''42''\<close>,
  \<open>''-1.5''\<close>, \<open>''NaN''\<close>); no arithmetic is done on thrown numbers. An object is given by
  its class and by what \<open>JSON.stringify(o)\<close> and \<open>String(o)\<close> do on it: each either
  throws a value (\<open>Inl\<close>) or returns (\<open>Inr\<close>); \<open>JSON.stringify\<close> may return
  \<open>undefined\<close> (\<open>None\<close>). An instance of \<open>Error\<close> carries in addition the four
  fields \<open>toErrorString\<close> reads (message, name, stack, cause) and whether it is an
  instance of the library's \<open>AssertionFailedError\<close>.
\<close>

datatype jsvalue =
    JSUndefined
  | JSNull
  | JSBoolean bool
  | JSNumber string
  | JSBigInt int
  | JSString string
  | JSSymbol string
  | JSFunction string
  | JSObject objclass "jsvalue + string option" "jsvalue + string"
and objclass =
    PlainObject
  | ArrayObject
  | StringObject
  | ErrorInstance bool string string "string option" jsvalue

datatype jstype =
  T_undefined | T_object | T_boolean | T_number | T_bigint | T_string | T_symbol | T_function

fun typeof :: "jsvalue \<Rightarrow> jstype" where
  "typeof JSUndefined = T_undefined"
| "typeof JSNull = T_object"
| "typeof (JSBoolean b) = T_boolean"
| "typeof (JSNumber r) = T_number"
| "typeof (JSBigInt n) = T_bigint"
| "typeof (JSString s) = T_string"
| "typeof (JSSymbol d) = T_symbol"
| "typeof (JSFunction src) = T_function"
| "typeof (JSObject c j s) = T_object"

datatype ctor = Error_ctor | AssertionFailedError_ctor | String_ctor

text \<open>\<open>value instanceof ctor\<close>; \<open>AssertionFailedError extends Error\<close>.\<close>

fun instanceof :: "jsvalue \<Rightarrow> ctor \<Rightarrow> bool" where
  "instanceof (JSObject (ErrorInstance af m n st c) j s) Error_ctor = True"
| "instanceof (JSObject (ErrorInstance af m n st c) j s) AssertionFailedError_ctor = af"
| "instanceof (JSObject StringObject j s) String_ctor = True"
| "instanceof v k = False"

text \<open>\<open>Object.prototype.toString.call(value)\<close>, which \<open>StringUtils.isString\<close> calls
  on values whose \<open>typeof\<close> is \<open>'object'\<close>.\<close>

fun Object_prototype_toString :: "jsvalue \<Rightarrow> string" where
  "Object_prototype_toString JSUndefined = ''[object Undefined]''"
| "Object_prototype_toString JSNull = ''[object Null]''"
| "Object_prototype_toString (JSBoolean b) = ''[object Boolean]''"
| "Object_prototype_toString (JSNumber r) = ''[object Number]''"
| "Object_prototype_toString (JSBigInt n) = ''[object BigInt]''"
| "Object_prototype_toString (JSString s) = ''[object String]''"
| "Object_prototype_toString (JSSymbol d) = ''[object Symbol]''"
| "Object_prototype_toString (JSFunction src) = ''[object Function]''"
| "Object_prototype_toString (JSObject PlainObject j s) = ''[object Object]''"
| "Object_prototype_toString (JSObject ArrayObject j s) = ''[object Array]''"
| "Object_prototype_toString (JSObject StringObject j s) = ''[object String]''"
| "Object_prototype_toString (JSObject (ErrorInstance af m n st c) j s) = ''[object Error]''"

text \<open>Truthiness, as \<open>!message\<close> and \<open>if (context.correlationId)\<close> test it.\<close>

fun truthy :: "jsvalue \<Rightarrow> bool" where
  "truthy JSUndefined = False"
| "truthy JSNull = False"
| "truthy (JSBoolean b) = b"
| "truthy (JSNumber r) = (r \<noteq> ''0'' \<and> r \<noteq> ''NaN'')"
| "truthy (JSBigInt n) = (n \<noteq> 0)"
| "truthy (JSString s) = (s \<noteq> [])"
| "truthy (JSSymbol d) = True"
| "truthy (JSFunction src) = True"
| "truthy (JSObject c j s) = True"

definition truthy_string :: "string option \<Rightarrow> bool" where
  "truthy_string x = (case x of None \<Rightarrow> False | Some s \<Rightarrow> s \<noteq> [])"

subsection \<open>Conversions to strings\<close>

definition digit :: "nat \<Rightarrow> char" where
  "digit d = ''0123456789abcdef'' ! d"

fun decimal_nat :: "nat \<Rightarrow> string" where
  "decimal_nat n = (if n < 10 then [digit n] else decimal_nat (n div 10) @ [digit (n mod 10)])"

declare decimal_nat.simps [simp del]

definition decimal_int :: "int \<Rightarrow> string" where
  "decimal_int i = (if i < 0 then ''-'' @ decimal_nat (nat (- i)) else decimal_nat (nat i))"

text \<open>\<open>Array.prototype.join\<close> on strings.\<close>

fun join :: "string \<Rightarrow> string list \<Rightarrow> string" where
  "join sep [] = []"
| "join sep [x] = x"
| "join sep (x # y # ys) = x @ sep @ join sep (y # ys)"

text \<open>The errors the engine itself throws from the conversions below.\<close>

definition new_TypeError :: "string \<Rightarrow> jsvalue" where
  "new_TypeError msg =
     JSObject (ErrorInstance False msg ''TypeError'' None JSUndefined)
       (Inr (Some ''{}'')) (Inr (''TypeError: '' @ msg))"

text \<open>The implicit conversion \<open>ToString\<close> of template literals, of \<open>+=\<close> on strings and of
  \<open>Array.prototype.join\<close>: a symbol throws.\<close>

fun ToString :: "jsvalue \<Rightarrow> jsvalue + string" where
  "ToString JSUndefined = Inr ''undefined''"
| "ToString JSNull = Inr ''null''"
| "ToString (JSBoolean b) = Inr (if b then ''true'' else ''false'')"
| "ToString (JSNumber r) = Inr r"
| "ToString (JSBigInt n) = Inr (decimal_int n)"
| "ToString (JSString s) = Inr s"
| "ToString (JSSymbol d) = Inl (new_TypeError ''Cannot convert a Symbol value to a string'')"
| "ToString (JSFunction src) = Inr src"
| "ToString (JSObject c j s) = s"

text \<open>\<open>String(value)\<close> called as a function: as \<open>ToString\<close>, but a symbol is described.\<close>

fun js_String :: "jsvalue \<Rightarrow> jsvalue + string" where
  "js_String (JSSymbol d) = Inr (''Symbol('' @ d @ '')'')"
| "js_String v = ToString v"

text \<open>\<open>QuoteJSONString\<close> of the language standard, on characters below 256.\<close>

definition json_escape :: "char \<Rightarrow> string" where
  "json_escape c =
     (let n = (of_char c :: nat) in
      if n = 8 then [CHR 0x5C, CHR ''b'']
      else if n = 9 then [CHR 0x5C, CHR ''t'']
      else if n = 10 then [CHR 0x5C, CHR ''n'']
      else if n = 12 then [CHR 0x5C, CHR ''f'']
      else if n = 13 then [CHR 0x5C, CHR ''r'']
      else if n = 34 then [CHR 0x5C, CHR 0x22]
      else if n = 92 then [CHR 0x5C, CHR 0x5C]
      else if n < 32 then [CHR 0x5C, CHR ''u'', CHR ''0'', CHR ''0'', digit (n div 16), digit (n mod 16)]
      else [c])"

definition QuoteJSONString :: "string \<Rightarrow> string" where
  "QuoteJSONString s = CHR 0x22 # concat (map json_escape s) @ [CHR 0x22]"

text \<open>\<open>JSON.stringify(value)\<close> with one argument. It returns \<open>undefined\<close> for
  \<open>undefined\<close>, functions and symbols, throws a \<open>TypeError\<close> for a BigInt, and renders
  a non-finite number as \<open>null\<close>.\<close>

fun JSON_stringify :: "jsvalue \<Rightarrow> jsvalue + string option" where
  "JSON_stringify JSUndefined = Inr None"
| "JSON_stringify JSNull = Inr (Some ''null'')"
| "JSON_stringify (JSBoolean b) = Inr (Some (if b then ''true'' else ''false''))"
| "JSON_stringify (JSNumber r) =
     Inr (Some (if r = ''NaN'' \<or> r = ''Infinity'' \<or> r = ''-Infinity'' then ''null'' else r))"
| "JSON_stringify (JSBigInt n) = Inl (new_TypeError ''Do not know how to serialize a BigInt'')"
| "JSON_stringify (JSString s) = Inr (Some (QuoteJSONString s))"
| "JSON_stringify (JSSymbol d) = Inr None"
| "JSON_stringify (JSFunction src) = Inr None"
| "JSON_stringify (JSObject c j s) = j"

text \<open>\<open>JSON.stringify\<close> of an object literal \<open>{k1: v1, ..., kn: vn}\<close> whose keys are not
  array indices: the members in the order written, a member whose value serializes to
  \<open>undefined\<close> left out, the first exception of a member's serialization thrown.\<close>

fun JSON_members :: "(string \<times> jsvalue) list \<Rightarrow> jsvalue + string list" where
  "JSON_members [] = Inr []"
| "JSON_members ((k, v) # ps) =
     (case JSON_stringify v of
        Inl t \<Rightarrow> Inl t
      | Inr j \<Rightarrow>
          (case JSON_members ps of
             Inl t \<Rightarrow> Inl t
           | Inr ms \<Rightarrow>
               Inr ((case j of None \<Rightarrow> [] | Some s \<Rightarrow> [QuoteJSONString k @ '':'' @ s]) @ ms)))"

definition JSON_stringify_object :: "(string \<times> jsvalue) list \<Rightarrow> jsvalue + string option" where
  "JSON_stringify_object ps =
     (case JSON_members ps of
        Inl t \<Rightarrow> Inl t
      | Inr ms \<Rightarrow> Inr (Some (''{'' @ join '','' ms @ ''}'')))"

text \<open>An array literal \<open>[v1, ..., vn]\<close> as a value: \<open>JSON.stringify\<close> renders an element
  that serializes to \<open>undefined\<close> as \<open>null\<close>; \<open>String\<close> joins the elements with commas,
  \<open>null\<close> and \<open>undefined\<close> as the empty string.\<close>

fun JSON_elements :: "jsvalue list \<Rightarrow> jsvalue + string list" where
  "JSON_elements [] = Inr []"
| "JSON_elements (v # vs) =
     (case JSON_stringify v of
        Inl t \<Rightarrow> Inl t
      | Inr j \<Rightarrow>
          (case JSON_elements vs of
             Inl t \<Rightarrow> Inl t
           | Inr es \<Rightarrow> Inr ((case j of None \<Rightarrow> ''null'' | Some s \<Rightarrow> s) # es)))"

fun ToString_elements :: "jsvalue list \<Rightarrow> jsvalue + string list" where
  "ToString_elements [] = Inr []"
| "ToString_elements (v # vs) =
     (case (if v = JSUndefined \<or> v = JSNull then Inr [] else ToString v) of
        Inl t \<Rightarrow> Inl t
      | Inr s \<Rightarrow>
          (case ToString_elements vs of
             Inl t \<Rightarrow> Inl t
           | Inr es \<Rightarrow> Inr (s # es)))"

definition JSArray :: "jsvalue list \<Rightarrow> jsvalue" where
  "JSArray vs =
     JSObject ArrayObject
       (case JSON_elements vs of
          Inl t \<Rightarrow> Inl t
        | Inr es \<Rightarrow> Inr (Some (''['' @ join '','' es @ '']'')))
       (case ToString_elements vs of
          Inl t \<Rightarrow> Inl t
        | Inr es \<Rightarrow> Inr (join '','' es))"

section \<open>Object and string utilities\<close>

text \<open>\<open>ObjectUtils.isNullOrUndefined\<close>: \<open>value == null\<close>.\<close>

definition isNullOrUndefined :: "jsvalue \<Rightarrow> bool" where
  "isNullOrUndefined v = (v = JSNull \<or> v = JSUndefined)"

text \<open>\<open>ObjectUtils.isTypeOfObject\<close>: \<open>value !== null && typeof value === 'object'\<close>.\<close>

definition isTypeOfObject :: "jsvalue \<Rightarrow> bool" where
  "isTypeOfObject v = (v \<noteq> JSNull \<and> typeof v = T_object)"

text \<open>\<open>ObjectUtils.isInstanceOf\<close>.\<close>

definition isInstanceOf :: "ctor \<Rightarrow> jsvalue \<Rightarrow> bool" where
  "isInstanceOf k object =
     (if isNullOrUndefined object \<or> \<not> isTypeOfObject object then False
      else instanceof object k)"

text \<open>\<open>StringUtils.isString\<close>.\<close>

definition isString :: "jsvalue \<Rightarrow> bool" where
  "isString v =
     (let type = typeof v in
      if type = T_object then Object_prototype_toString v = ''[object String]''
      else type = T_string \<or> instanceof v String_ctor)"

text \<open>\<open>AssertionFailedError.isInstance\<close>.\<close>

definition AssertionFailedError_isInstance :: "jsvalue \<Rightarrow> bool" where
  "AssertionFailedError_isInstance error = isInstanceOf AssertionFailedError_ctor error"

text \<open>\<open>new AssertionFailedError(message)\<close> and \<open>new Error(message, {cause})\<close> as the
  engine builds them: \<open>this.name = AssertionFailedError.name\<close> is the only own enumerable
  property, so \<open>JSON.stringify\<close> of an \<open>Error\<close> itself yields \<open>{}\<close>.\<close>

definition new_Error :: "string \<Rightarrow> string option \<Rightarrow> jsvalue \<Rightarrow> jsvalue" where
  "new_Error message stack cause =
     JSObject (ErrorInstance False message ''Error'' stack cause)
       (Inr (Some ''{}'')) (Inr (if message = [] then ''Error'' else ''Error: '' @ message))"

definition new_AssertionFailedError :: "string \<Rightarrow> string option \<Rightarrow> jsvalue" where
  "new_AssertionFailedError technicalErrorMessage stack =
     JSObject (ErrorInstance True technicalErrorMessage ''AssertionFailedError'' stack JSUndefined)
       (Inr (Some (''{'' @ QuoteJSONString ''name'' @ '':'' @ QuoteJSONString ''AssertionFailedError'' @ ''}'')))
       (Inr (if technicalErrorMessage = [] then ''AssertionFailedError''
             else ''AssertionFailedError: '' @ technicalErrorMessage))"

section \<open>ErrorUtils.toErrorString\<close>

text \<open>
  The source:
  \<^verbatim>\<open>
  static toErrorString(error: unknown): string {
    if (StringUtils.isString(error)) return String(error);
    if (error instanceof Error)
      return JSON.stringify({ message: error.message, name: error.name,
                              stack: error.stack, cause: error.cause });
    try { return JSON.stringify(error); } catch { return String(error); }
  }
  \<close>
  The declared return type is \<open>string\<close>, but \<open>JSON.stringify\<close> returns \<open>undefined\<close> on some
  values, so the result is a \<open>string option\<close>; and the serialization in the \<open>Error\<close> branch
  and the final \<open>String(error)\<close> stand outside any \<open>try\<close>, so the call can throw.
\<close>

definition toErrorString :: "jsvalue \<Rightarrow> jsvalue + string option" where
  "toErrorString error =
     (if isString error then map_sum id Some (js_String error)
      else if instanceof error Error_ctor then
        (case error of
           JSObject (ErrorInstance af message name stack cause) j s \<Rightarrow>
             JSON_stringify_object
               [(''message'', JSString message), (''name'', JSString name),
                (''stack'', case stack of None \<Rightarrow> JSUndefined | Some st \<Rightarrow> JSString st),
                (''cause'', cause)]
         | _ \<Rightarrow> JSON_stringify error)
      else
        (case JSON_stringify error of
           Inr r \<Rightarrow> Inr r
         | Inl t \<Rightarrow> map_sum id Some (js_String error)))"

section \<open>Effects: exceptions and the console\<close>

text \<open>
  Every function of the library that can throw or log is a function from the world before
  the call to its completion and the world after it. A completion is \<open>Inl x\<close> when the
  value \<open>x\<close> was thrown and \<open>Inr r\<close> when \<open>r\<close> was returned. The world holds the calls
  made to the \<open>console\<close> object so far and the reading of the clock
  (\<open>new Date().toISOString()\<close>). Callbacks supplied by the caller are such functions too:
  they may throw, write to the console, or do neither.
\<close>

datatype console_level = ConsoleLog | ConsoleDebug | ConsoleInfo | ConsoleWarn | ConsoleError

record console_call =
  level :: console_level
  arguments :: "jsvalue list"

record world =
  console :: "console_call list"
  clock :: string

type_synonym 'a action = "world \<Rightarrow> (jsvalue + 'a) \<times> world"

definition return :: "'a \<Rightarrow> 'a action" where
  "return r w = (Inr r, w)"

definition throw :: "jsvalue \<Rightarrow> 'a action" where
  "throw x w = (Inl x, w)"

text \<open>Sequencing: \<open>m\<close>, then \<open>k\<close> on its result, unless \<open>m\<close> threw.\<close>

definition bind :: "'a action \<Rightarrow> ('a \<Rightarrow> 'b action) \<Rightarrow> 'b action" where
  "bind m k w = (case m w of (Inl x, w') \<Rightarrow> (Inl x, w') | (Inr r, w') \<Rightarrow> k r w')"

text \<open>\<open>try { m } catch (err) { h(err) }\<close>.\<close>

definition try_catch :: "'a action \<Rightarrow> (jsvalue \<Rightarrow> 'a action) \<Rightarrow> 'a action" where
  "try_catch m h w = (case m w of (Inl x, w') \<Rightarrow> h x w' | (Inr r, w') \<Rightarrow> (Inr r, w'))"

text \<open>A conversion of the engine (it throws or returns, and leaves the world alone) as an action.\<close>

definition lift :: "jsvalue + 'a \<Rightarrow> 'a action" where
  "lift c w = (c, w)"

definition console_call_of :: "console_level \<Rightarrow> string \<Rightarrow> jsvalue list \<Rightarrow> unit action" where
  "console_call_of l s params w =
     (Inr (), w\<lparr>console := console w @ [\<lparr>level = l, arguments = JSString s # params\<rparr>]\<rparr>)"

section \<open>Logging\<close>

text \<open>\<open>StandardLogPropertiesCore\<close>; the field \<open>context\<close> is written \<open>context'\<close>.\<close>

record StandardLogPropertiesCore =
  context' :: "string list option"
  errorInstanceId :: "string option"
  correlationId :: "string option"

text \<open>\<open>LoggingUtils.formatStandardCallerContext\<close>.\<close>

definition formatStandardCallerContext :: "string list option \<Rightarrow> string" where
  "formatStandardCallerContext callerContext =
     (case callerContext of
        None \<Rightarrow> ''UNKNOWN CONTEXT''
      | Some xs \<Rightarrow> if length xs = 0 then ''UNKNOWN CONTEXT'' else join ''.'' xs)"

text \<open>\<open>LoggingUtils.formatLogPropertiesCallerContext\<close>: the argument is a string (\<open>Inl\<close>)
  or a log properties object (\<open>Inr\<close>).\<close>

definition formatLogPropertiesCallerContext ::
  "string + 'a StandardLogPropertiesCore_scheme \<Rightarrow> string" where
  "formatLogPropertiesCallerContext contextStringOrObject =
     (case contextStringOrObject of
        Inl s \<Rightarrow> s
      | Inr p \<Rightarrow> formatStandardCallerContext (context' p))"

text \<open>\<open>ConsoleLogger._formatLogMessage\<close>. The conversion of the message can throw, and a
  message that \<open>toErrorString\<close> turns into \<open>undefined\<close> is appended as the text
  \<open>undefined\<close>.\<close>

definition formatLogMessage ::
  "string \<Rightarrow> string + 'a StandardLogPropertiesCore_scheme \<Rightarrow> jsvalue \<Rightarrow> string action" where
  "formatLogMessage prefixText ctx message w =
     (let timePrefix = clock w;
          formattedContext = formatLogPropertiesCallerContext ctx;
          formatted = timePrefix @ '' '' @ prefixText @ '': '' @ formattedContext;
          formatted =
            (case ctx of
               Inl s \<Rightarrow> formatted
             | Inr p \<Rightarrow>
                 (let formatted =
                        (if truthy_string (correlationId p)
                         then formatted @ '' - CorrelationId: '' @ the (correlationId p)
                         else formatted)
                  in if truthy_string (errorInstanceId p)
                     then formatted @ '' - ErrorInstanceId: '' @ the (errorInstanceId p)
                     else formatted))
      in if \<not> truthy message \<or> isString message then
           (if truthy message then
              (case ToString message of
                 Inl t \<Rightarrow> (Inl t, w)
               | Inr s \<Rightarrow> (Inr (formatted @ '' - '' @ s), w))
            else (Inr formatted, w))
         else
           (case toErrorString message of
              Inl t \<Rightarrow> (Inl t, w)
            | Inr r \<Rightarrow> (Inr (formatted @ (case r of None \<Rightarrow> ''undefined'' | Some s \<Rightarrow> s)), w)))"

text \<open>\<open>ConsoleLogger._errorCore\<close> and \<open>_debugCore\<close>: the message is formatted first, then
  \<open>console.error\<close> (\<open>console.debug\<close>) is called once.\<close>

definition errorCore ::
  "string \<Rightarrow> string + 'a StandardLogPropertiesCore_scheme \<Rightarrow> jsvalue \<Rightarrow> jsvalue list \<Rightarrow> unit action" where
  "errorCore prefixText ctx message optionalParams =
     bind (formatLogMessage prefixText ctx message)
       (\<lambda>s. console_call_of ConsoleError s optionalParams)"


text \<open>The methods of the singleton \<open>LOG\<close> that the result factory calls.\<close>

definition LOG_technicalError ::
  "string + 'a StandardLogPropertiesCore_scheme \<Rightarrow> jsvalue \<Rightarrow> jsvalue list \<Rightarrow> unit action" where
  "LOG_technicalError ctx message optionalParams =
     errorCore ''TECHNICAL_ERROR'' ctx message optionalParams"

definition LOG_assertionFailed ::
  "string + 'a StandardLogPropertiesCore_scheme \<Rightarrow> jsvalue \<Rightarrow> jsvalue list \<Rightarrow> unit action" where
  "LOG_assertionFailed ctx message optionalParams =
     errorCore ''ASSERTION_FAILED'' ctx message optionalParams"


section \<open>Error result details\<close>

text \<open>\<open>ErrorResultDetailsConstructorOptions = StandardLogPropertiesCore & {errorCode?, errorMessage?}\<close>.\<close>

record ErrorResultDetailsConstructorOptions = StandardLogPropertiesCore +
  errorCode :: "string option"
  errorMessage :: "string option"

text \<open>\<open>ApiErrorResultConstructorOptions\<close>: the constructor options without
  \<open>errorInstanceId\<close> and \<open>errorMessage\<close>.\<close>

record ApiErrorResultConstructorOptions =
  api_context :: "string list option"
  api_errorCode :: "string option"
  api_correlationId :: "string option"

text \<open>Modelled from the spec: the type \<open>HttpApiProblemDetails\<close> (file \<open>http.ietf.types\<close>),
  of which \<open>StandardApiErrorResponse\<close> is an alias: \<open>{type, title?, status, detail?,
  instance?, ...extension fields}\<close>. The fields \<open>type\<close> and \<open>instance\<close> are written
  \<open>type'\<close> and \<open>instance'\<close>.\<close>

record HttpApiProblemDetails =
  type' :: "string option"
  title :: "string option"
  status :: "int option"
  detail :: "string option"
  instance' :: "string option"
  extensions :: "(string \<times> jsvalue) list"

type_synonym StandardApiErrorResponse = HttpApiProblemDetails

text \<open>The private fields of \<open>AbstractErrorResultDetails\<close> (\<open>_context\<close>, \<open>_errorMessage\<close>,
  ...), written with the prefix \<open>p_\<close>.\<close>

record AbstractErrorResultDetails =
  p_context :: "string list option"
  p_errorMessage :: "string option"
  p_errorCode :: "string option"
  p_errorInstanceId :: "string option"
  p_correlationId :: "string option"

text \<open>The closed class hierarchy: an instance is its class together with the state of the
  abstract base class (and the response, for an API error).\<close>

datatype ErrorResultDetails =
    ApiErrorResultDetails AbstractErrorResultDetails HttpApiProblemDetails
  | AssertionFailedErrorResultDetails AbstractErrorResultDetails
  | ShortCircuitedErrorResultDetails AbstractErrorResultDetails
  | TechnicalErrorResultDetails AbstractErrorResultDetails
  | UserErrorResultDetails AbstractErrorResultDetails

fun base :: "ErrorResultDetails \<Rightarrow> AbstractErrorResultDetails" where
  "base (ApiErrorResultDetails b r) = b"
| "base (AssertionFailedErrorResultDetails b) = b"
| "base (ShortCircuitedErrorResultDetails b) = b"
| "base (TechnicalErrorResultDetails b) = b"
| "base (UserErrorResultDetails b) = b"

fun with_base :: "ErrorResultDetails \<Rightarrow> AbstractErrorResultDetails \<Rightarrow> ErrorResultDetails" where
  "with_base (ApiErrorResultDetails b r) b' = ApiErrorResultDetails b' r"
| "with_base (AssertionFailedErrorResultDetails b) b' = AssertionFailedErrorResultDetails b'"
| "with_base (ShortCircuitedErrorResultDetails b) b' = ShortCircuitedErrorResultDetails b'"
| "with_base (TechnicalErrorResultDetails b) b' = TechnicalErrorResultDetails b'"
| "with_base (UserErrorResultDetails b) b' = UserErrorResultDetails b'"

fun discriminantTag :: "ErrorResultDetails \<Rightarrow> string" where
  "discriminantTag (ApiErrorResultDetails b r) = ''ApiError''"
| "discriminantTag (AssertionFailedErrorResultDetails b) = ''AssertionFailedError''"
| "discriminantTag (ShortCircuitedErrorResultDetails b) = ''ShortCircuitedError''"
| "discriminantTag (TechnicalErrorResultDetails b) = ''TechnicalError''"
| "discriminantTag (UserErrorResultDetails b) = ''UserError''"

text \<open>The static \<open>isInstance\<close> guards of the classes the claims speak of.\<close>

fun TechnicalErrorResultDetails_isInstance :: "ErrorResultDetails \<Rightarrow> bool" where
  "TechnicalErrorResultDetails_isInstance (TechnicalErrorResultDetails b) = True"
| "TechnicalErrorResultDetails_isInstance d = False"

fun AssertionFailedErrorResultDetails_isInstance :: "ErrorResultDetails \<Rightarrow> bool" where
  "AssertionFailedErrorResultDetails_isInstance (AssertionFailedErrorResultDetails b) = True"
| "AssertionFailedErrorResultDetails_isInstance d = False"

fun ApiErrorResultDetails_isInstance :: "ErrorResultDetails \<Rightarrow> bool" where
  "ApiErrorResultDetails_isInstance (ApiErrorResultDetails b r) = True"
| "ApiErrorResultDetails_isInstance d = False"

fun UserErrorResultDetails_isInstance :: "ErrorResultDetails \<Rightarrow> bool" where
  "UserErrorResultDetails_isInstance (UserErrorResultDetails b) = True"
| "UserErrorResultDetails_isInstance d = False"

subsection \<open>Constructors\<close>

text \<open>The constructor of the abstract base class copies the five options.\<close>

definition new_AbstractErrorResultDetails ::
  "'a ErrorResultDetailsConstructorOptions_scheme \<Rightarrow> AbstractErrorResultDetails" where
  "new_AbstractErrorResultDetails options =
     \<lparr>p_context = context' options,
      p_errorMessage = errorMessage options,
      p_errorCode = errorCode options,
      p_errorInstanceId = errorInstanceId options,
      p_correlationId = correlationId options\<rparr>"

definition new_AssertionFailedErrorResultDetails ::
  "'a ErrorResultDetailsConstructorOptions_scheme \<Rightarrow> ErrorResultDetails" where
  "new_AssertionFailedErrorResultDetails options =
     AssertionFailedErrorResultDetails (new_AbstractErrorResultDetails options)"

definition new_ShortCircuitedErrorResultDetails ::
  "'a ErrorResultDetailsConstructorOptions_scheme \<Rightarrow> ErrorResultDetails" where
  "new_ShortCircuitedErrorResultDetails options =
     ShortCircuitedErrorResultDetails (new_AbstractErrorResultDetails options)"

definition new_TechnicalErrorResultDetails ::
  "'a ErrorResultDetailsConstructorOptions_scheme \<Rightarrow> ErrorResultDetails" where
  "new_TechnicalErrorResultDetails options =
     TechnicalErrorResultDetails (new_AbstractErrorResultDetails options)"

definition new_UserErrorResultDetails ::
  "'a ErrorResultDetailsConstructorOptions_scheme \<Rightarrow> ErrorResultDetails" where
  "new_UserErrorResultDetails options =
     UserErrorResultDetails (new_AbstractErrorResultDetails options)"

text \<open>\<open>a ?? b\<close> on optional strings.\<close>

definition nullish_coalesce :: "'a option \<Rightarrow> 'a option \<Rightarrow> 'a option" where
  "nullish_coalesce a b = (case a of None \<Rightarrow> b | Some x \<Rightarrow> Some x)"

text \<open>The constructor of \<open>ApiErrorResultDetails\<close>:
  \<^verbatim>\<open>
  const constructorOptions = {
    context: options.context, errorCode: options.errorCode,
    errorMessage: apiErrorResponse.title ?? apiErrorResponse.detail,
    errorInstanceId: apiErrorResponse.instance,
    correlationId: options.correlationId };
  super(constructorOptions);
  this._errorResponse = apiErrorResponse;
  \<close>\<close>

definition new_ApiErrorResultDetails ::
  "ApiErrorResultConstructorOptions \<Rightarrow> StandardApiErrorResponse \<Rightarrow> ErrorResultDetails" where
  "new_ApiErrorResultDetails options apiErrorResponse =
     (let constructorOptions =
            \<lparr>context' = api_context options,
             errorInstanceId = instance' apiErrorResponse,
             correlationId = api_correlationId options,
             errorCode = api_errorCode options,
             errorMessage = nullish_coalesce (title apiErrorResponse) (detail apiErrorResponse)\<rparr>
      in ApiErrorResultDetails (new_AbstractErrorResultDetails constructorOptions) apiErrorResponse)"

subsection \<open>Accessors\<close>

definition defaultErrorMessage :: string where
  "defaultErrorMessage = ''Sorry, something went wrong.''"

definition get_context :: "ErrorResultDetails \<Rightarrow> string list option" where
  "get_context d = p_context (base d)"

definition get_errorCode :: "ErrorResultDetails \<Rightarrow> string option" where
  "get_errorCode d = p_errorCode (base d)"

text \<open>\<open>get errorMessage(): string { return this._errorMessage ?? defaultErrorMessage; }\<close>\<close>

definition get_errorMessage :: "ErrorResultDetails \<Rightarrow> string" where
  "get_errorMessage d = (case p_errorMessage (base d) of None \<Rightarrow> defaultErrorMessage | Some m \<Rightarrow> m)"

definition get_correlationId :: "ErrorResultDetails \<Rightarrow> string option" where
  "get_correlationId d = p_correlationId (base d)"

text \<open>\<open>get errorResponse()\<close> of \<open>ApiErrorResultDetails\<close>; the other classes have no such
  property.\<close>

fun get_errorResponse :: "ErrorResultDetails \<Rightarrow> StandardApiErrorResponse option" where
  "get_errorResponse (ApiErrorResultDetails b r) = Some r"
| "get_errorResponse d = None"

subsection \<open>The lazily generated error instance identifier\<close>

text \<open>
  \<open>Math.random()\<close> is the \<open>k\<close>-th element of a sequence of reals supplied by the engine,
  \<open>k\<close> counting the draws made so far; the standard promises a number in \<open>[0, 1)\<close>. The
  product with the length of the alphabet is taken in the reals. An index outside the
  alphabet reads \<open>undefined\<close>, which the template literal renders as the text
  \<open>undefined\<close>.
\<close>

definition errorInstanceIdCharacters :: string where
  "errorInstanceIdCharacters = ''ABCDEFGHIJKLMNOPQRSTUVWXYZ0123456789''"

definition pickCharacter :: "(nat \<Rightarrow> real) \<Rightarrow> nat \<Rightarrow> string \<times> nat" where
  "pickCharacter random k =
     (let i = \<lfloor>random k * real (length errorInstanceIdCharacters)\<rfloor>
      in (if 0 \<le> i \<and> i < int (length errorInstanceIdCharacters)
          then [errorInstanceIdCharacters ! nat i] else ''undefined'',
          Suc k))"

definition createErrorInstanceId :: "(nat \<Rightarrow> real) \<Rightarrow> nat \<Rightarrow> string \<times> nat" where
  "createErrorInstanceId random k0 =
     (let (c1, k1) = pickCharacter random k0;
          (c2, k2) = pickCharacter random k1;
          (c3, k3) = pickCharacter random k2;
          (c4, k4) = pickCharacter random k3;
          (c5, k5) = pickCharacter random k4;
          (c6, k6) = pickCharacter random k5;
          (c7, k7) = pickCharacter random k6;
          (c8, k8) = pickCharacter random k7
      in (c1 @ c2 @ c3 @ c4 @ ''-'' @ c5 @ c6 @ c7 @ c8, k8))"

text \<open>
  \<^verbatim>\<open>
  get errorInstanceId(): string | undefined {
    if (ObjectUtils.isNullOrUndefined(this._errorInstanceId)) {
      this._errorInstanceId = ErrorUtils.createErrorInstanceId();
    }
    return this._errorInstanceId;
  }
  \<close>
  The accessor writes the private field, so it returns the value read together with the
  object after the read and the count of random draws.
\<close>

definition get_errorInstanceId ::
  "(nat \<Rightarrow> real) \<Rightarrow> ErrorResultDetails \<Rightarrow> nat \<Rightarrow> string option \<times> ErrorResultDetails \<times> nat" where
  "get_errorInstanceId random d k =
     (case p_errorInstanceId (base d) of
        None \<Rightarrow>
          (let (generated, k') = createErrorInstanceId random k;
               d' = with_base d ((base d)\<lparr>p_errorInstanceId := Some generated\<rparr>)
           in (p_errorInstanceId (base d'), d', k'))
      | Some i \<Rightarrow> (Some i, d, k))"

subsection \<open>formatErrorResult\<close>

text \<open>
  \<^verbatim>\<open>
  formatErrorResult(): string {
    const formattedContext = LoggingUtils.formatStandardCallerContext(this.context);
    const errorCode = ObjectUtils.isNullOrUndefined(this.errorCode) ? '' : String(this.errorCode);
    const errorMessage = ObjectUtils.isNullOrUndefined(this.errorMessage) ? '' : String(this.errorMessage);
    return `${formattedContext} - ${errorCode} - ${errorMessage}`;
  }
  \<close>
  Both guards are kept: the one on the message tests the value the accessor returned.
\<close>

definition formatErrorResult :: "ErrorResultDetails \<Rightarrow> string" where
  "formatErrorResult d =
     (let formattedContext = formatStandardCallerContext (get_context d);
          errorCode = (case get_errorCode d of None \<Rightarrow> [] | Some c \<Rightarrow> c);
          errorMessage = (case Some (get_errorMessage d) of None \<Rightarrow> [] | Some m \<Rightarrow> m)
      in formattedContext @ '' - '' @ errorCode @ '' - '' @ errorMessage)"

section \<open>Results\<close>

text \<open>An \<open>OkResult\<close> owns a value, an \<open>ErrorResult\<close> owns error details.\<close>

datatype 'v Result = OkResult 'v | ErrorResult ErrorResultDetails

fun isOk :: "'v Result \<Rightarrow> bool" where
  "isOk (OkResult v) = True"
| "isOk (ErrorResult e) = False"

fun isError :: "'v Result \<Rightarrow> bool" where
  "isError (OkResult v) = False"
| "isError (ErrorResult e) = True"

fun errorDetails :: "'v Result \<Rightarrow> ErrorResultDetails option" where
  "errorDetails (OkResult v) = None"
| "errorDetails (ErrorResult e) = Some e"

text \<open>\<open>AbstractResult.isTechnicalError\<close> and \<open>isAssertionFailedError\<close>:
  \<open>this.isError && ObjectUtils.isInstanceOf(ctor, this.errorDetails)\<close>.\<close>

definition isTechnicalError :: "'v Result \<Rightarrow> bool" where
  "isTechnicalError r =
     (isError r \<and> (case errorDetails r of None \<Rightarrow> False
                    | Some d \<Rightarrow> TechnicalErrorResultDetails_isInstance d))"

definition isAssertionFailedError :: "'v Result \<Rightarrow> bool" where
  "isAssertionFailedError r =
     (isError r \<and> (case errorDetails r of None \<Rightarrow> False
                    | Some d \<Rightarrow> AssertionFailedErrorResultDetails_isInstance d))"

section \<open>The result factory\<close>

text \<open>\<open>DefaultErrorResultFactoryOptions = StandardLogPropertiesCore & {log?: boolean}\<close>;
  the field \<open>log\<close> is written \<open>log'\<close>.\<close>

record DefaultErrorResultFactoryOptions = StandardLogPropertiesCore +
  log' :: "bool option"

text \<open>A \<open>StandardLogPropertiesCore\<close> passed where factory options are expected: the type
  has no \<open>log\<close> property, so \<open>options.log\<close> reads \<open>undefined\<close>.\<close>

definition asFactoryOptions :: "StandardLogPropertiesCore \<Rightarrow> DefaultErrorResultFactoryOptions" where
  "asFactoryOptions logProperties =
     \<lparr>context' = context' logProperties,
      errorInstanceId = errorInstanceId logProperties,
      correlationId = correlationId logProperties,
      log' = None\<rparr>"

definition classContext :: string where
  "classContext = ''ResultFactory''"

text \<open>A template literal renders an absent string as \<open>undefined\<close>.\<close>

definition template :: "string option \<Rightarrow> string" where
  "template x = (case x of None \<Rightarrow> ''undefined'' | Some s \<Rightarrow> s)"

text \<open>\<open>{...options, context: options.context ? [contextPrefix, ...options.context] : [contextPrefix]}\<close>\<close>

definition amendOptions ::
  "string \<Rightarrow> DefaultErrorResultFactoryOptions \<Rightarrow> DefaultErrorResultFactoryOptions" where
  "amendOptions contextPrefix options =
     options\<lparr>context' :=
       Some (case context' options of None \<Rightarrow> [contextPrefix] | Some xs \<Rightarrow> contextPrefix # xs)\<rparr>"

text \<open>\<open>ResultFactory._createErrorResultConstructorOptions\<close>:
  \<^verbatim>\<open>
  let formattedMessage = ErrorUtils.toErrorString(assertionFailedErrorMessage);
  if (optionalParams?.length > 0) {
    formattedMessage += ` - ${ErrorUtils.toErrorString(optionalParams)}`;
  }
  const createOptions = { context: options.context, errorInstanceId: options.errorInstanceId,
    errorMessage: formattedMessage, errorCode, correlationId: options.correlationId }
  \<close>\<close>

definition createErrorResultConstructorOptions ::
  "DefaultErrorResultFactoryOptions \<Rightarrow> string option \<Rightarrow> jsvalue \<Rightarrow> jsvalue list
     \<Rightarrow> jsvalue + ErrorResultDetailsConstructorOptions" where
  "createErrorResultConstructorOptions options code message optionalParams =
     (case toErrorString message of
        Inl t \<Rightarrow> Inl t
      | Inr formattedMessage \<Rightarrow>
          (case (if length optionalParams > 0
                 then (case toErrorString (JSArray optionalParams) of
                         Inl t \<Rightarrow> Inl t
                       | Inr ps \<Rightarrow> Inr (Some (template formattedMessage @ '' - '' @ template ps)))
                 else Inr formattedMessage) of
             Inl t \<Rightarrow> Inl t
           | Inr formattedMessage \<Rightarrow>
               Inr \<lparr>context' = context' options,
                    errorInstanceId = errorInstanceId options,
                    correlationId = correlationId options,
                    errorCode = code,
                    errorMessage = formattedMessage\<rparr>))"

text \<open>\<open>ResultFactory.ok\<close>.\<close>

definition ok :: "'v \<Rightarrow> 'v Result" where
  "ok okValue = OkResult okValue"

text \<open>\<open>ResultFactory.technicalError\<close>: log unless \<open>options.log === false\<close>, then build the
  details.\<close>

definition technicalError ::
  "DefaultErrorResultFactoryOptions \<Rightarrow> string option \<Rightarrow> jsvalue \<Rightarrow> jsvalue list \<Rightarrow> 'v Result action" where
  "technicalError options code technicalErrorMessage optionalParams =
     bind
       (if log' options \<noteq> Some False then
          (let contextPrefix = classContext @ '' - TechnicalErrorResult'';
               amendedOptions = amendOptions contextPrefix options;
               amendedParams = JSString (''ErrorCode: '' @ template code) # optionalParams
           in LOG_technicalError (Inr amendedOptions) technicalErrorMessage amendedParams)
        else return ())
       (\<lambda>_. bind (lift (createErrorResultConstructorOptions options code technicalErrorMessage optionalParams))
          (\<lambda>createOptions. return (ErrorResult (new_TechnicalErrorResultDetails createOptions))))"

text \<open>\<open>ResultFactory.assertionFailedError\<close>.\<close>

definition assertionFailedError ::
  "DefaultErrorResultFactoryOptions \<Rightarrow> string option \<Rightarrow> jsvalue \<Rightarrow> jsvalue list \<Rightarrow> 'v Result action" where
  "assertionFailedError options code assertionFailedErrorMessage optionalParams =
     bind
       (if log' options \<noteq> Some False then
          (let contextPrefix = classContext @ '' - AssertionFailedErrorResult'';
               amendedOptions = amendOptions contextPrefix options;
               amendedParams = JSString (''ErrorCode: '' @ template code) # optionalParams
           in LOG_assertionFailed (Inr amendedOptions) assertionFailedErrorMessage amendedParams)
        else return ())
       (\<lambda>_. bind (lift (createErrorResultConstructorOptions options code assertionFailedErrorMessage optionalParams))
          (\<lambda>createOptions. return (ErrorResult (new_AssertionFailedErrorResultDetails createOptions))))"


text \<open>The result of \<open>toErrorString\<close> passed on as a message argument.\<close>

definition js_of_string_option :: "string option \<Rightarrow> jsvalue" where
  "js_of_string_option x = (case x of None \<Rightarrow> JSUndefined | Some s \<Rightarrow> JSString s)"

text \<open>\<open>ResultFactory.fromErrorObject\<close>:
  \<^verbatim>\<open>
  if (ObjectUtils.isNullOrUndefined(err) || !ObjectUtils.isTypeOfObject(err)) {
    return ResultFactory.technicalError(logProperties, undefined, ErrorUtils.toErrorString(err));
  }
  if (AssertionFailedError.isInstance(err)) {
    return ResultFactory.assertionFailedError(logProperties, undefined, err);
  }
  return ResultFactory.technicalError(logProperties, undefined, ErrorUtils.toErrorString(err));
  \<close>
  The argument \<open>toErrorString(err)\<close> is evaluated before the factory is called.\<close>

definition fromErrorObject :: "StandardLogPropertiesCore \<Rightarrow> jsvalue \<Rightarrow> 'v Result action" where
  "fromErrorObject logProperties err =
     (if isNullOrUndefined err \<or> \<not> isTypeOfObject err then
        bind (lift (toErrorString err))
          (\<lambda>m. technicalError (asFactoryOptions logProperties) None (js_of_string_option m) [])
      else if AssertionFailedError_isInstance err then
        assertionFailedError (asFactoryOptions logProperties) None err []
      else
        bind (lift (toErrorString err))
          (\<lambda>m. technicalError (asFactoryOptions logProperties) None (js_of_string_option m) []))"

text \<open>\<open>ResultFactory.tryCatchDefault\<close> and \<open>tryCatch\<close>.\<close>

definition tryCatchDefault :: "StandardLogPropertiesCore \<Rightarrow> 'v action \<Rightarrow> 'v Result action" where
  "tryCatchDefault logProperties fn =
     try_catch (bind fn (\<lambda>v. return (ok v))) (\<lambda>err. fromErrorObject logProperties err)"


text \<open>
  Asynchronous functions. A promise is taken at the moment it has settled; a call of an
  \<open>async\<close> function never throws: what its body throws rejects the promise it returns.
  \<open>await\<close> of a rejected promise throws the reason.
\<close>

datatype 'a promise = Fulfilled 'a | Rejected jsvalue

fun await :: "'a promise \<Rightarrow> 'a action" where
  "await (Fulfilled v) = return v"
| "await (Rejected x) = throw x"

definition async :: "'a action \<Rightarrow> world \<Rightarrow> 'a promise \<times> world" where
  "async body w = (case body w of (Inl x, w') \<Rightarrow> (Rejected x, w') | (Inr r, w') \<Rightarrow> (Fulfilled r, w'))"

definition tryCatchDefaultAsync ::
  "StandardLogPropertiesCore \<Rightarrow> 'v promise action \<Rightarrow> world \<Rightarrow> 'v Result promise \<times> world" where
  "tryCatchDefaultAsync logProperties fn =
     async (try_catch (bind (bind fn await) (\<lambda>v. return (ok v)))
              (\<lambda>err. fromErrorObject logProperties err))"


text \<open>The \<open>wrap\<close> combinators return a function of the wrapped function's arguments.\<close>

definition wrapDefault ::
  "StandardLogPropertiesCore \<Rightarrow> ('args \<Rightarrow> 'v action) \<Rightarrow> 'args \<Rightarrow> 'v Result action" where
  "wrapDefault logProperties fn = (\<lambda>args. tryCatchDefault logProperties (fn args))"

definition wrapDefaultAsync ::
  "StandardLogPropertiesCore \<Rightarrow> ('args \<Rightarrow> 'v promise action) \<Rightarrow> 'args \<Rightarrow> world \<Rightarrow> 'v Result promise \<times> world" where
  "wrapDefaultAsync logProperties fn = (\<lambda>args. tryCatchDefaultAsync logProperties (fn args))"



section \<open>The operations of OkResult and ErrorResult\<close>

text \<open>
  Each method is one function on results, with one equation for the body in
  \<open>ok-result.ts\<close> and one for the body in \<open>error-result.ts\<close>. \<open>return this\<close> returns the
  result itself.
\<close>

fun mapNoCatch :: "'v Result \<Rightarrow> ('v \<Rightarrow> 'u action) \<Rightarrow> 'u Result action" where
  "mapNoCatch (OkResult v) onOk = bind (onOk v) (\<lambda>u. return (OkResult u))"
| "mapNoCatch (ErrorResult e) onOk = return (ErrorResult e)"

fun mapCatchDefault ::
  "'v Result \<Rightarrow> StandardLogPropertiesCore \<Rightarrow> ('v \<Rightarrow> 'u action) \<Rightarrow> 'u Result action" where
  "mapCatchDefault (OkResult v) logProperties onOk =
     try_catch (bind (onOk v) (\<lambda>u. return (OkResult u)))
       (\<lambda>err. technicalError (asFactoryOptions logProperties) (Some ''UNEXPECTED'') err [])"
| "mapCatchDefault (ErrorResult e) logProperties onOk = return (ErrorResult e)"

fun mapCatch ::
  "'v Result \<Rightarrow> ('v \<Rightarrow> 'u action) \<Rightarrow> (jsvalue \<Rightarrow> 'u Result action) \<Rightarrow> 'u Result action" where
  "mapCatch (OkResult v) onOk errorResultFactory =
     try_catch (bind (onOk v) (\<lambda>u. return (OkResult u))) (\<lambda>err. errorResultFactory err)"
| "mapCatch (ErrorResult e) onOk errorResultFactory = return (ErrorResult e)"

fun mapError ::
  "'v Result \<Rightarrow> (ErrorResultDetails \<Rightarrow> ErrorResultDetails action) \<Rightarrow> 'v Result action" where
  "mapError (OkResult v) onError = return (OkResult v)"
| "mapError (ErrorResult e) onError = bind (onError e) (\<lambda>e'. return (ErrorResult e'))"

fun andThenNoCatch :: "'v Result \<Rightarrow> ('v \<Rightarrow> 'u Result action) \<Rightarrow> 'u Result action" where
  "andThenNoCatch (OkResult v) onOk = onOk v"
| "andThenNoCatch (ErrorResult e) onOk = return (ErrorResult e)"

fun andThenCatchDefault ::
  "'v Result \<Rightarrow> StandardLogPropertiesCore \<Rightarrow> ('v \<Rightarrow> 'u Result action) \<Rightarrow> 'u Result action" where
  "andThenCatchDefault (OkResult v) logProperties onOk =
     try_catch (onOk v)
       (\<lambda>err. technicalError (asFactoryOptions logProperties) (Some ''UNEXPECTED'') err [])"
| "andThenCatchDefault (ErrorResult e) logProperties onOk = return (ErrorResult e)"


fun orElseNoCatch ::
  "'v Result \<Rightarrow> (ErrorResultDetails \<Rightarrow> 'v Result action) \<Rightarrow> 'v Result action" where
  "orElseNoCatch (OkResult v) onError = return (OkResult v)"
| "orElseNoCatch (ErrorResult e) onError = onError e"

fun orElseCatchDefault ::
  "'v Result \<Rightarrow> StandardLogPropertiesCore \<Rightarrow> (ErrorResultDetails \<Rightarrow> 'v Result action) \<Rightarrow> 'v Result action" where
  "orElseCatchDefault (OkResult v) logProperties onError = return (OkResult v)"
| "orElseCatchDefault (ErrorResult e) logProperties onError =
     try_catch (onError e)
       (\<lambda>err. technicalError (asFactoryOptions logProperties) (Some ''UNEXPECTED'') err [])"


text \<open>The \<open>fold\<close> methods return what a callback returned, or (in the catching variants) the
  \<open>ErrorResult\<close> built from the exception of \<open>onOk\<close>: the union
  \<open>TNextOkValue | ErrorResult<...> | TErrorReturn\<close> is \<open>Plain\<close> for a callback's value and
  \<open>Built\<close> for the result.\<close>

datatype ('r, 'u) folded = Plain 'r | Built "'u Result"

fun foldNoCatch ::
  "'v Result \<Rightarrow> ('v \<Rightarrow> 'r action) \<Rightarrow> (ErrorResultDetails \<Rightarrow> 'r action) \<Rightarrow> 'r action" where
  "foldNoCatch (OkResult v) onOk onError = onOk v"
| "foldNoCatch (ErrorResult e) onOk onError = onError e"

fun foldCatchDefault ::
  "'v Result \<Rightarrow> StandardLogPropertiesCore \<Rightarrow> ('v \<Rightarrow> 'r action) \<Rightarrow> (ErrorResultDetails \<Rightarrow> 'r action)
     \<Rightarrow> ('r, 'u) folded action" where
  "foldCatchDefault (OkResult v) logProperties onOk onError =
     try_catch (bind (onOk v) (\<lambda>r. return (Plain r)))
       (\<lambda>err. bind (technicalError (asFactoryOptions logProperties) (Some ''UNEXPECTED'') err [])
                 (\<lambda>r. return (Built r)))"
| "foldCatchDefault (ErrorResult e) logProperties onOk onError =
     bind (onError e) (\<lambda>r. return (Plain r))"


section \<open>Vocabulary of the properties\<close>

text \<open>The world after one more call of \<open>console.error\<close> with the text \<open>s\<close> followed by
  \<open>params\<close>.\<close>

definition logged :: "string \<Rightarrow> jsvalue list \<Rightarrow> world \<Rightarrow> world" where
  "logged s params w =
     w\<lparr>console := console w @ [\<lparr>level = ConsoleError, arguments = JSString s # params\<rparr>]\<rparr>"

text \<open>The calls of \<open>console.error\<close> among the console calls of a world.\<close>

definition error_calls :: "world \<Rightarrow> console_call list" where
  "error_calls w = filter (\<lambda>c. level c = ConsoleError) (console w)"

text \<open>A call returned (it did not throw); an asynchronous call resolved (its promise was
  not rejected).\<close>

definition returned :: "(jsvalue + 'a) \<times> world \<Rightarrow> bool" where
  "returned c = (case fst c of Inl x \<Rightarrow> False | Inr r \<Rightarrow> True)"

definition resolved :: "'a promise \<times> world \<Rightarrow> bool" where
  "resolved c = (case fst c of Rejected x \<Rightarrow> False | Fulfilled r \<Rightarrow> True)"

text \<open>A value is convertible when \<open>toErrorString\<close> returns on it. A call throws convertibly
  when what it throws, if anything, is convertible; an asynchronous call does when what it
  throws or rejects with is.\<close>

definition convertible :: "jsvalue \<Rightarrow> bool" where
  "convertible x = (case toErrorString x of Inl t \<Rightarrow> False | Inr m \<Rightarrow> True)"

definition throws_convertibly :: "(jsvalue + 'a) \<times> world \<Rightarrow> bool" where
  "throws_convertibly c = (case fst c of Inl x \<Rightarrow> convertible x | Inr r \<Rightarrow> True)"

definition rejects_convertibly :: "(jsvalue + 'a promise) \<times> world \<Rightarrow> bool" where
  "rejects_convertibly c =
     (case fst c of
        Inl x \<Rightarrow> convertible x
      | Inr (Rejected x) \<Rightarrow> convertible x
      | Inr (Fulfilled r) \<Rightarrow> True)"

text \<open>A settled promise as a completion: fulfilled with a value, or rejected with a reason.\<close>

fun settled :: "'a promise \<Rightarrow> jsvalue + 'a" where
  "settled (Fulfilled r) = Inr r"
| "settled (Rejected x) = Inl x"

text \<open>How a call on the default path ends after it caught \<open>x\<close>: it returns an
  \<open>ErrorResult\<close> whose details carry the error code \<open>code\<close>, or the conversion of \<open>x\<close>
  threw \<open>t\<close> and the call throws \<open>t\<close>.\<close>

definition caught_with_code :: "jsvalue \<Rightarrow> string option \<Rightarrow> jsvalue + 'v Result \<Rightarrow> bool" where
  "caught_with_code x code c =
     (case c of
        Inl t \<Rightarrow> toErrorString x = Inl t
      | Inr (OkResult v) \<Rightarrow> False
      | Inr (ErrorResult d) \<Rightarrow> get_errorCode d = code)"

text \<open>The format \<open>[A-Z0-9]{4}-[A-Z0-9]{4}\<close> of a whole string.\<close>

definition is_id_char :: "char \<Rightarrow> bool" where
  "is_id_char c =
     ((of_char (CHR ''A'') \<le> (of_char c :: nat) \<and> (of_char c :: nat) \<le> of_char (CHR ''Z''))
      \<or> (of_char (CHR ''0'') \<le> (of_char c :: nat) \<and> (of_char c :: nat) \<le> of_char (CHR ''9'')))"

definition matches_id_format :: "string \<Rightarrow> bool" where
  "matches_id_format s =
     (case s of
        [c1, c2, c3, c4, h, c5, c6, c7, c8] \<Rightarrow>
          is_id_char c1 \<and> is_id_char c2 \<and> is_id_char c3 \<and> is_id_char c4 \<and> h = CHR ''-'' \<and>
          is_id_char c5 \<and> is_id_char c6 \<and> is_id_char c7 \<and> is_id_char c8
      | _ \<Rightarrow> False)"

text \<open>The values the repository's tests use.\<close>

definition test_context :: "string list" where
  "test_context = [''Domain'', ''App'', ''Service'', ''op'']"

definition test_logProperties :: StandardLogPropertiesCore where
  "test_logProperties =
     \<lparr>context' = Some test_context, errorInstanceId = None, correlationId = None\<rparr>"

definition test_options :: ErrorResultDetailsConstructorOptions where
  "test_options =
     \<lparr>context' = Some test_context, errorInstanceId = Some ''err-1'',
      correlationId = Some ''corr-1'', errorCode = Some ''TE'', errorMessage = Some ''boom''\<rparr>"

definition test_world :: world where
  "test_world = \<lparr>console = [], clock = ''2026-01-01T00:00:00.000Z''\<rparr>"


text \<open>The error factory of \<open>example-usage.ts\<close>:
  \<open>(err) => Result.technicalError(logProperties, "TryCatchFailed", err)\<close> with
  \<open>logProperties = { context, correlationId: "corr-1" }\<close>. It throws when the conversion of
  \<open>err\<close> throws.\<close>

definition example_factory :: "jsvalue \<Rightarrow> 'v Result action" where
  "example_factory err =
     technicalError \<lparr>context' = Some test_context, errorInstanceId = None,
                     correlationId = Some ''corr-1'', log' = None\<rparr> (Some ''TryCatchFailed'') err []"

text \<open>The throwing callbacks of the tests: \<open>() => { throw new Error('bad') }\<close> and
  \<open>async () => { throw new Error('bad') }\<close>, whose call returns a rejected promise.\<close>

definition test_throwing :: "'a action" where
  "test_throwing = throw (new_Error ''bad'' None JSUndefined)"

definition test_rejecting :: "'a promise action" where
  "test_rejecting = return (Rejected (new_Error ''bad'' None JSUndefined))"

section \<open>Facts about the conversions and the factory\<close>

lemma isString_cases:
  "isString v \<longleftrightarrow> (\<exists>s. v = JSString s) \<or> (\<exists>j s. v = JSObject StringObject j s)"
  apply (cases v)
  apply (simp_all add: isString_def)
  subgoal for c j s by (cases c) simp_all
  done

lemma isString_ToString: "isString v \<Longrightarrow> ToString v = js_String v"
  by (auto simp: isString_cases)

lemma falsy_toErrorString: "\<not> truthy v \<Longrightarrow> \<exists>m. toErrorString v = Inr m"
  by (cases v) (simp_all add: toErrorString_def isString_def)

lemma formatLogMessage_throws:
  "toErrorString msg = Inl t \<Longrightarrow> formatLogMessage p ctx msg w = (Inl t, w)"
proof (cases "\<not> truthy msg \<or> isString msg")
  case False
  assume "toErrorString msg = Inl t"
  with False show ?thesis by (simp add: formatLogMessage_def Let_def)
next
  case True
  assume t: "toErrorString msg = Inl t"
  have tr: "truthy msg" using t falsy_toErrorString [of msg] by auto
  with True have s: "isString msg" by simp
  with t have "js_String msg = Inl t"
    by (cases "js_String msg") (simp_all add: toErrorString_def)
  with s have "ToString msg = Inl t" by (simp add: isString_ToString)
  with tr s show ?thesis by (simp add: formatLogMessage_def Let_def)
qed

lemma formatLogMessage_returns:
  "toErrorString msg = Inr m \<Longrightarrow> \<exists>s. formatLogMessage p ctx msg w = (Inr s, w)"
proof (cases "\<not> truthy msg \<or> isString msg")
  case False
  assume "toErrorString msg = Inr m"
  with False show ?thesis by (simp add: formatLogMessage_def Let_def)
next
  case True
  assume t: "toErrorString msg = Inr m"
  show ?thesis
  proof (cases "truthy msg")
    case False
    then show ?thesis by (simp add: formatLogMessage_def Let_def)
  next
    case tr: True
    with True have s: "isString msg" by simp
    with t obtain x where "js_String msg = Inr x"
      by (cases "js_String msg") (simp_all add: toErrorString_def)
    with s have "ToString msg = Inr x" by (simp add: isString_ToString)
    with tr s show ?thesis by (simp add: formatLogMessage_def Let_def)
  qed
qed



lemma createOptions_throws:
  "toErrorString msg = Inl t \<Longrightarrow> createErrorResultConstructorOptions opts code msg [] = Inl t"
  by (simp add: createErrorResultConstructorOptions_def)

lemma createOptions_returns:
  "toErrorString msg = Inr m \<Longrightarrow>
   createErrorResultConstructorOptions opts code msg [] =
     Inr \<lparr>context' = context' opts, errorInstanceId = errorInstanceId opts,
          correlationId = correlationId opts, errorCode = code, errorMessage = m\<rparr>"
  by (simp add: createErrorResultConstructorOptions_def)

lemma technicalError_throws:
  "toErrorString msg = Inl t \<Longrightarrow> technicalError opts code msg [] w = (Inl t, w)"
  by (simp add: technicalError_def bind_def return_def lift_def LOG_technicalError_def
      errorCore_def formatLogMessage_throws createOptions_throws Let_def)

lemma technicalError_returns:
  assumes "toErrorString msg = Inr m"
  shows "\<exists>s. technicalError opts code msg [] w =
     (Inr (ErrorResult (TechnicalErrorResultDetails
        \<lparr>p_context = context' opts, p_errorMessage = m, p_errorCode = code,
         p_errorInstanceId = errorInstanceId opts, p_correlationId = correlationId opts\<rparr>)),
      if log' opts = Some False then w
      else logged s [JSString (''ErrorCode: '' @ template code)] w)"
proof -
  obtain s where s: "formatLogMessage ''TECHNICAL_ERROR''
      (Inr (amendOptions (classContext @ '' - TechnicalErrorResult'') opts)) msg w = (Inr s, w)"
    using formatLogMessage_returns [OF assms] by blast
  show ?thesis
    using s createOptions_returns [OF assms, of opts code]
    by (auto simp: technicalError_def bind_def return_def lift_def LOG_technicalError_def
      errorCore_def Let_def console_call_of_def logged_def new_TechnicalErrorResultDetails_def
      new_AbstractErrorResultDetails_def intro!: exI [of _ s])
qed

lemma assertionFailedError_throws:
  "toErrorString msg = Inl t \<Longrightarrow> assertionFailedError opts code msg [] w = (Inl t, w)"
  by (simp add: assertionFailedError_def bind_def return_def lift_def LOG_assertionFailed_def
      errorCore_def formatLogMessage_throws createOptions_throws Let_def)

lemma assertionFailedError_returns:
  assumes "toErrorString msg = Inr m"
  shows "\<exists>s. assertionFailedError opts code msg [] w =
     (Inr (ErrorResult (AssertionFailedErrorResultDetails
        \<lparr>p_context = context' opts, p_errorMessage = m, p_errorCode = code,
         p_errorInstanceId = errorInstanceId opts, p_correlationId = correlationId opts\<rparr>)),
      if log' opts = Some False then w
      else logged s [JSString (''ErrorCode: '' @ template code)] w)"
proof -
  obtain s where s: "formatLogMessage ''ASSERTION_FAILED''
      (Inr (amendOptions (classContext @ '' - AssertionFailedErrorResult'') opts)) msg w = (Inr s, w)"
    using formatLogMessage_returns [OF assms] by blast
  show ?thesis
    using s createOptions_returns [OF assms, of opts code]
    by (auto simp: assertionFailedError_def bind_def return_def lift_def LOG_assertionFailed_def
      errorCore_def Let_def console_call_of_def logged_def new_AssertionFailedErrorResultDetails_def
      new_AbstractErrorResultDetails_def intro!: exI [of _ s])
qed

lemma toErrorString_of_result:
  "toErrorString (js_of_string_option m) = Inr m"
  by (cases m) (simp_all add: js_of_string_option_def toErrorString_def isString_def)

lemma fromErrorObject_throws:
  "toErrorString err = Inl t \<Longrightarrow> fromErrorObject lp err w = (Inl t, w)"
  by (simp add: fromErrorObject_def bind_def lift_def assertionFailedError_throws)

lemma fromErrorObject_returns:
  assumes "toErrorString err = Inr m"
  shows "\<exists>s. fromErrorObject lp err w =
     (Inr (ErrorResult
        ((if \<not> (isNullOrUndefined err \<or> \<not> isTypeOfObject err) \<and> AssertionFailedError_isInstance err
          then AssertionFailedErrorResultDetails else TechnicalErrorResultDetails)
        \<lparr>p_context = context' lp, p_errorMessage = m, p_errorCode = None,
         p_errorInstanceId = errorInstanceId lp, p_correlationId = correlationId lp\<rparr>)),
      logged s [JSString ''ErrorCode: undefined''] w)"
proof (cases "\<not> (isNullOrUndefined err \<or> \<not> isTypeOfObject err) \<and> AssertionFailedError_isInstance err")
  case True
  then show ?thesis
    using assertionFailedError_returns [OF assms, of "asFactoryOptions lp" None w]
    by (auto simp: fromErrorObject_def asFactoryOptions_def template_def)
next
  case False
  then show ?thesis
    using technicalError_returns [OF toErrorString_of_result, of "asFactoryOptions lp" None m w] assms
    by (auto simp: fromErrorObject_def asFactoryOptions_def template_def bind_def lift_def)
qed


lemma alphabet_chars: "list_all is_id_char errorInstanceIdCharacters"
  by (simp add: errorInstanceIdCharacters_def is_id_char_def)

lemma pickCharacter_in_range:
  assumes "0 \<le> random k" "random k < 1"
  shows "\<exists>c. pickCharacter random k = ([c], Suc k) \<and> is_id_char c"
proof -
  define i where "i = \<lfloor>random k * real (length errorInstanceIdCharacters)\<rfloor>"
  have len: "length errorInstanceIdCharacters = 36" by (simp add: errorInstanceIdCharacters_def)
  have lo: "0 \<le> i" using assms(1) by (simp add: i_def)
  have "random k * 36 < 36" using assms(2) by simp
  then have hi: "i < 36" by (simp add: i_def len floor_less_iff)
  have "nat i < length errorInstanceIdCharacters" using lo hi len by linarith
  then have "is_id_char (errorInstanceIdCharacters ! nat i)"
    using alphabet_chars by (simp add: list_all_length)
  then show ?thesis using lo hi assms unfolding i_def
    by (simp add: pickCharacter_def Let_def len)
qed

lemma createErrorInstanceId_format:
  assumes "\<forall>k. 0 \<le> random k \<and> random k < 1"
  shows "\<exists>s. createErrorInstanceId random k = (s, k + 8) \<and> matches_id_format s"
proof -
  have p: "\<And>j. \<exists>c. pickCharacter random j = ([c], Suc j) \<and> is_id_char c"
    using assms pickCharacter_in_range by blast
  obtain c1 where c1: "pickCharacter random k = ([c1], Suc k)" "is_id_char c1" using p by blast
  obtain c2 where c2: "pickCharacter random (Suc k) = ([c2], Suc (Suc k))" "is_id_char c2" using p by blast
  obtain c3 where c3: "pickCharacter random (Suc (Suc k)) = ([c3], Suc (Suc (Suc k)))" "is_id_char c3" using p by blast
  obtain c4 where c4: "pickCharacter random (Suc (Suc (Suc k))) = ([c4], Suc (Suc (Suc (Suc k))))" "is_id_char c4" using p by blast
  obtain c5 where c5: "pickCharacter random (Suc (Suc (Suc (Suc k)))) = ([c5], Suc (Suc (Suc (Suc (Suc k)))))" "is_id_char c5" using p by blast
  obtain c6 where c6: "pickCharacter random (Suc (Suc (Suc (Suc (Suc k))))) = ([c6], Suc (Suc (Suc (Suc (Suc (Suc k))))))" "is_id_char c6" using p by blast
  obtain c7 where c7: "pickCharacter random (Suc (Suc (Suc (Suc (Suc (Suc k)))))) = ([c7], Suc (Suc (Suc (Suc (Suc (Suc (Suc k)))))))" "is_id_char c7" using p by blast
  obtain c8 where c8: "pickCharacter random (Suc (Suc (Suc (Suc (Suc (Suc (Suc k))))))) = ([c8], Suc (Suc (Suc (Suc (Suc (Suc (Suc (Suc k))))))))" "is_id_char c8" using p by blast
  show ?thesis
    using c1 c2 c3 c4 c5 c6 c7 c8
    by (simp add: createErrorInstanceId_def matches_id_format_def)
qed

lemma base_with_base: "base (with_base d b) = b"
  by (cases d) simp_all


section \<open>Laws of the operations\<close>

lemma returned_simps [simp]:
  "returned (Inr r, w) = True" "returned (Inl x, w) = False"
  by (simp_all add: returned_def)

lemma resolved_simps [simp]:
  "resolved (Fulfilled r, w) = True" "resolved (Rejected x, w) = False"
  by (simp_all add: resolved_def)

lemma join_concat: "join sep (x # xs) = x @ concat (map (\<lambda>y. sep @ y) xs)"
  by (induction xs arbitrary: x) simp_all

lemma append_dot: "(@) ''.'' = (#) CHR ''.''"
  by (rule ext) simp

text \<open>C2. An \<open>ErrorResult\<close> short-circuits \<open>andThenNoCatch\<close>, an \<open>OkResult\<close> short-circuits
  \<open>orElseNoCatch\<close>: whatever the callback is (it may throw or write to the console), the
  call returns the result itself and leaves the world as it was, so the callback was not
  invoked.\<close>

theorem chaining_short_circuit:
  "andThenNoCatch (ErrorResult e) f w = (Inr (ErrorResult e), w)
   \<and> orElseNoCatch (OkResult v) g w = (Inr (OkResult v), w)"
  by (simp add: return_def)

theorem chaining_short_circuit_witness:
  "andThenNoCatch (ErrorResult (new_TechnicalErrorResultDetails test_options))
       (\<lambda>v :: nat. throw (JSString ''must not run'') :: nat Result action) test_world
     = (Inr (ErrorResult (new_TechnicalErrorResultDetails test_options)), test_world)
   \<and> orElseNoCatch (OkResult (42 :: nat)) (\<lambda>e. throw (JSString ''must not run'')) test_world
     = (Inr (OkResult 42), test_world)"
  using chaining_short_circuit
    [of "new_TechnicalErrorResultDetails test_options"
        "\<lambda>v :: nat. throw (JSString ''must not run'') :: nat Result action" test_world
        "42 :: nat" "\<lambda>e. throw (JSString ''must not run'')"]
  by simp

text \<open>C3. Mapping the identity over an \<open>OkResult\<close> holding \<open>v\<close> returns an \<open>OkResult\<close>
  holding \<open>v\<close>; \<open>mapNoCatch\<close> on an \<open>ErrorResult\<close> holding \<open>e\<close> returns an \<open>ErrorResult\<close>
  holding \<open>e\<close> for every mapping function and leaves the world as it was, so the function
  was not invoked.\<close>

theorem map_identity_laws:
  "mapNoCatch (OkResult v) (\<lambda>x. return x) w = (Inr (OkResult v), w)
   \<and> mapNoCatch (ErrorResult e) f w = (Inr (ErrorResult e), w)"
  by (simp add: return_def bind_def)

theorem map_identity_laws_witness:
  "mapNoCatch (OkResult (42 :: nat)) (\<lambda>x. return x) test_world = (Inr (OkResult 42), test_world)
   \<and> mapNoCatch (ErrorResult (new_UserErrorResultDetails test_options))
        (\<lambda>v :: nat. throw (JSString ''must not run'') :: nat action) test_world
      = (Inr (ErrorResult (new_UserErrorResultDetails test_options)), test_world)"
  using map_identity_laws
    [of "42 :: nat" test_world "new_UserErrorResultDetails test_options"
        "\<lambda>v :: nat. throw (JSString ''must not run'') :: nat action"]
  by simp

text \<open>C6. When no identifier was supplied, the first read of \<open>errorInstanceId\<close> generates
  one and stores it, and the second read returns the same value without generating again
  (the object and the count of random draws are unchanged by it); if \<open>Math.random\<close> stays in
  \<open>[0, 1)\<close>, the identifier has the format \<open>[A-Z0-9]{4}-[A-Z0-9]{4}\<close>. When an identifier
  was supplied, a read returns it and changes nothing.\<close>

theorem errorInstanceId_lazy_and_memoized:
  "(p_errorInstanceId (base d) = None \<longrightarrow>
      (case get_errorInstanceId random d k of
         (first, d1, k1) \<Rightarrow>
           (case get_errorInstanceId random d1 k1 of
              (second, d2, k2) \<Rightarrow>
                second = first \<and> d2 = d1 \<and> k2 = k1 \<and> p_errorInstanceId (base d1) = first \<and>
                ((\<forall>j. 0 \<le> random j \<and> random j < 1) \<longrightarrow>
                   (\<exists>s. first = Some s \<and> matches_id_format s)))))
   \<and> (p_errorInstanceId (base d) = Some i \<longrightarrow> get_errorInstanceId random d k = (Some i, d, k))"
proof (intro conjI impI)
  assume n: "p_errorInstanceId (base d) = None"
  obtain g k' where g: "createErrorInstanceId random k = (g, k')"
    by (cases "createErrorInstanceId random k")
  let ?d1 = "with_base d ((base d)\<lparr>p_errorInstanceId := Some g\<rparr>)"
  have first: "get_errorInstanceId random d k = (Some g, ?d1, k')"
    using n g by (simp add: get_errorInstanceId_def base_with_base)
  have second: "get_errorInstanceId random ?d1 k' = (Some g, ?d1, k')"
    by (simp add: get_errorInstanceId_def base_with_base)
  have fmt: "(\<forall>j. 0 \<le> random j \<and> random j < 1) \<longrightarrow> matches_id_format g"
    using createErrorInstanceId_format [of random k] g by auto
  show "case get_errorInstanceId random d k of
         (first, d1, k1) \<Rightarrow>
           (case get_errorInstanceId random d1 k1 of
              (second, d2, k2) \<Rightarrow>
                second = first \<and> d2 = d1 \<and> k2 = k1 \<and> p_errorInstanceId (base d1) = first \<and>
                ((\<forall>j. 0 \<le> random j \<and> random j < 1) \<longrightarrow>
                   (\<exists>s. first = Some s \<and> matches_id_format s)))"
    using fmt by (simp add: first second base_with_base)
next
  assume "p_errorInstanceId (base d) = Some i"
  then show "get_errorInstanceId random d k = (Some i, d, k)"
    by (simp add: get_errorInstanceId_def)
qed


theorem errorInstanceId_lazy_and_memoized_witness:
  "p_errorInstanceId (base (new_TechnicalErrorResultDetails (test_options\<lparr>errorInstanceId := None\<rparr>))) = None
   \<and> (\<forall>j. 0 \<le> real (j mod 4) / 4 \<and> real (j mod 4) / 4 < 1)
   \<and> fst (get_errorInstanceId (\<lambda>j. real (j mod 4) / 4)
        (new_TechnicalErrorResultDetails (test_options\<lparr>errorInstanceId := None\<rparr>)) 0) = Some ''AJS1-AJS1''
   \<and> fst (get_errorInstanceId (\<lambda>j. real (j mod 4) / 4)
        (fst (snd (get_errorInstanceId (\<lambda>j. real (j mod 4) / 4)
           (new_TechnicalErrorResultDetails (test_options\<lparr>errorInstanceId := None\<rparr>)) 0))) 8) = Some ''AJS1-AJS1''
   \<and> matches_id_format ''AJS1-AJS1''
   \<and> p_errorInstanceId (base (new_TechnicalErrorResultDetails test_options)) = Some ''err-1''
   \<and> get_errorInstanceId (\<lambda>j. real (j mod 4) / 4) (new_TechnicalErrorResultDetails test_options) 0
       = (Some ''err-1'', new_TechnicalErrorResultDetails test_options, 0)"
proof -
  have r: "\<forall>j. 0 \<le> real (j mod 4) / 4 \<and> real (j mod 4) / 4 < 1"
  proof
    fix j :: nat
    have "j mod 4 < 4" by simp
    then have "real (j mod 4) < 4" by linarith
    then show "0 \<le> real (j mod 4) / 4 \<and> real (j mod 4) / 4 < 1" by simp
  qed
  have picks:
    "pickCharacter (\<lambda>j. real (j mod 4) / 4) 0 = (''A'', Suc 0)"
    "pickCharacter (\<lambda>j. real (j mod 4) / 4) (Suc 0) = (''J'', 2)"
    "pickCharacter (\<lambda>j. real (j mod 4) / 4) 2 = (''S'', 3)"
    "pickCharacter (\<lambda>j. real (j mod 4) / 4) 3 = (''1'', 4)"
    "pickCharacter (\<lambda>j. real (j mod 4) / 4) 4 = (''A'', 5)"
    "pickCharacter (\<lambda>j. real (j mod 4) / 4) 5 = (''J'', 6)"
    "pickCharacter (\<lambda>j. real (j mod 4) / 4) 6 = (''S'', 7)"
    "pickCharacter (\<lambda>j. real (j mod 4) / 4) 7 = (''1'', 8)"
    by (simp_all add: pickCharacter_def errorInstanceIdCharacters_def Let_def)
  have g: "createErrorInstanceId (\<lambda>j. real (j mod 4) / 4) 0 = (''AJS1-AJS1'', 8)"
    by (simp add: createErrorInstanceId_def picks)
  have m: "matches_id_format ''AJS1-AJS1''"
    by (simp add: matches_id_format_def is_id_char_def)
  show ?thesis
    using r g m
      errorInstanceId_lazy_and_memoized
        [of "new_TechnicalErrorResultDetails (test_options\<lparr>errorInstanceId := None\<rparr>)"
            "\<lambda>j. real (j mod 4) / 4" 0 "''err-1''"]
      errorInstanceId_lazy_and_memoized
        [of "new_TechnicalErrorResultDetails test_options" "\<lambda>j. real (j mod 4) / 4" 0 "''err-1''"]
    by (simp add: get_errorInstanceId_def new_TechnicalErrorResultDetails_def
        new_AbstractErrorResultDetails_def test_options_def)
qed

text \<open>C7. \<open>formatErrorResult\<close> returns the formatted context, the error code and the error
  message separated by \<open>'' - ''\<close>; the formatted context is the context joined with
  dots when it is present and not empty and \<open>UNKNOWN CONTEXT\<close> otherwise; an absent error
  code is rendered empty. For the context Domain, App, Service, op, the code TE and the
  message boom the result is \<open>Domain.App.Service.op - TE - boom\<close>.\<close>

theorem formatErrorResult_shape:
  "formatErrorResult d =
     (case get_context d of
        None \<Rightarrow> ''UNKNOWN CONTEXT''
      | Some [] \<Rightarrow> ''UNKNOWN CONTEXT''
      | Some (x # xs) \<Rightarrow> x @ concat (map (\<lambda>y. ''.'' @ y) xs))
     @ '' - '' @ (case get_errorCode d of None \<Rightarrow> [] | Some c \<Rightarrow> c)
     @ '' - '' @ get_errorMessage d
   \<and> (get_context d = Some [''Domain'', ''App'', ''Service'', ''op'']
        \<and> get_errorCode d = Some ''TE'' \<and> get_errorMessage d = ''boom''
      \<longrightarrow> formatErrorResult d = ''Domain.App.Service.op - TE - boom'')"
  by (simp add: formatErrorResult_def formatStandardCallerContext_def join_concat append_dot
      split: option.splits list.splits)

theorem formatErrorResult_shape_witness:
  "get_context (new_TechnicalErrorResultDetails test_options) = Some [''Domain'', ''App'', ''Service'', ''op'']
   \<and> get_errorCode (new_TechnicalErrorResultDetails test_options) = Some ''TE''
   \<and> get_errorMessage (new_TechnicalErrorResultDetails test_options) = ''boom''
   \<and> formatErrorResult (new_TechnicalErrorResultDetails test_options) = ''Domain.App.Service.op - TE - boom''"
  using formatErrorResult_shape [of "new_TechnicalErrorResultDetails test_options"]
  by (simp add: get_context_def get_errorCode_def get_errorMessage_def test_options_def
      test_context_def new_TechnicalErrorResultDetails_def new_AbstractErrorResultDetails_def)

text \<open>C8. The details built from an API error response take their message from the
  response's title, from its detail when the title is absent (and the default message when
  both are); their stored identifier is the response's instance, which a read returns when
  it is present; and \<open>errorResponse\<close> is the response itself.\<close>

theorem ApiErrorResultDetails_from_response:
  "get_errorMessage (new_ApiErrorResultDetails options r) =
     (case title r of
        Some t \<Rightarrow> t
      | None \<Rightarrow> (case detail r of Some x \<Rightarrow> x | None \<Rightarrow> ''Sorry, something went wrong.''))
   \<and> p_errorInstanceId (base (new_ApiErrorResultDetails options r)) = instance' r
   \<and> (instance' r = Some i \<longrightarrow>
        get_errorInstanceId random (new_ApiErrorResultDetails options r) k
          = (Some i, new_ApiErrorResultDetails options r, k))
   \<and> get_errorResponse (new_ApiErrorResultDetails options r) = Some r
   \<and> ApiErrorResultDetails_isInstance (new_ApiErrorResultDetails options r)"
  by (simp add: new_ApiErrorResultDetails_def new_AbstractErrorResultDetails_def
      get_errorMessage_def get_errorInstanceId_def nullish_coalesce_def defaultErrorMessage_def
      split: option.splits)

theorem ApiErrorResultDetails_from_response_witness:
  "instance' \<lparr>type' = Some ''about:test'', title = Some ''Bad Request'', status = Some 400,
              detail = Some ''Invalid'', instance' = Some ''/x'', extensions = []\<rparr> = Some ''/x''
   \<and> get_errorMessage (new_ApiErrorResultDetails
        \<lparr>api_context = Some test_context, api_errorCode = None, api_correlationId = Some ''corr-1''\<rparr>
        \<lparr>type' = Some ''about:test'', title = Some ''Bad Request'', status = Some 400,
         detail = Some ''Invalid'', instance' = Some ''/x'', extensions = []\<rparr>) = ''Bad Request''
   \<and> fst (get_errorInstanceId (\<lambda>j. 0) (new_ApiErrorResultDetails
        \<lparr>api_context = Some test_context, api_errorCode = None, api_correlationId = Some ''corr-1''\<rparr>
        \<lparr>type' = Some ''about:test'', title = Some ''Bad Request'', status = Some 400,
         detail = Some ''Invalid'', instance' = Some ''/x'', extensions = []\<rparr>) 0) = Some ''/x''
   \<and> get_errorMessage (new_ApiErrorResultDetails
        \<lparr>api_context = None, api_errorCode = None, api_correlationId = None\<rparr>
        \<lparr>type' = None, title = None, status = None,
         detail = Some ''Invalid'', instance' = None, extensions = []\<rparr>) = ''Invalid''"
  using ApiErrorResultDetails_from_response
    [of "\<lparr>api_context = Some test_context, api_errorCode = None, api_correlationId = Some ''corr-1''\<rparr>"
        "\<lparr>type' = Some ''about:test'', title = Some ''Bad Request'', status = Some 400,
          detail = Some ''Invalid'', instance' = Some ''/x'', extensions = []\<rparr>"
        "''/x''" "\<lambda>j. 0" 0]
    ApiErrorResultDetails_from_response
    [of "\<lparr>api_context = None, api_errorCode = None, api_correlationId = None\<rparr>"
        "\<lparr>type' = None, title = None, status = None,
          detail = Some ''Invalid'', instance' = None, extensions = []\<rparr>"
        "''/x''" "\<lambda>j. 0" 0]
  by simp

text \<open>C9, as the code has it. Without an error code the code segment of
  \<open>formatErrorResult\<close> is empty. The message segment is what the accessor returns: the
  supplied message, or the default \<open>Sorry, something went wrong.\<close> when none was supplied;
  so the guard of \<open>formatErrorResult\<close> on the message never applies, and the segment is
  empty exactly when the empty string was supplied as the message.\<close>

theorem formatErrorResult_without_code:
  "(get_errorCode d = None \<longrightarrow>
      formatErrorResult d = formatStandardCallerContext (get_context d) @ '' -  - '' @ get_errorMessage d)
   \<and> get_errorMessage d =
       (case p_errorMessage (base d) of None \<Rightarrow> ''Sorry, something went wrong.'' | Some m \<Rightarrow> m)
   \<and> (get_errorMessage d = [] \<longleftrightarrow> p_errorMessage (base d) = Some [])
   \<and> p_errorMessage (base (new_TechnicalErrorResultDetails options)) = errorMessage options
   \<and> p_errorMessage (base (new_AssertionFailedErrorResultDetails options)) = errorMessage options
   \<and> p_errorMessage (base (new_UserErrorResultDetails options)) = errorMessage options
   \<and> p_errorMessage (base (new_ShortCircuitedErrorResultDetails options)) = errorMessage options"
  by (simp add: formatErrorResult_def get_errorMessage_def defaultErrorMessage_def
      new_TechnicalErrorResultDetails_def new_AssertionFailedErrorResultDetails_def
      new_UserErrorResultDetails_def new_ShortCircuitedErrorResultDetails_def
      new_AbstractErrorResultDetails_def split: option.splits)

theorem formatErrorResult_without_code_witness:
  "get_errorCode (new_TechnicalErrorResultDetails
       (test_options\<lparr>errorCode := None, errorMessage := None\<rparr>)) = None
   \<and> formatErrorResult (new_TechnicalErrorResultDetails
       (test_options\<lparr>errorCode := None, errorMessage := None\<rparr>))
      = ''Domain.App.Service.op -  - Sorry, something went wrong.''"
  using formatErrorResult_without_code
    [of "new_TechnicalErrorResultDetails (test_options\<lparr>errorCode := None, errorMessage := None\<rparr>)"
        "test_options"]
  by (simp add: get_context_def get_errorCode_def formatStandardCallerContext_def test_options_def
      test_context_def new_TechnicalErrorResultDetails_def new_AbstractErrorResultDetails_def)

text \<open>C9 as stated fails: a message segment can be empty. The details built with the
  empty string as message format with nothing after the second separator.\<close>

theorem formatErrorResult_empty_message_segment:
  "get_errorMessage (new_UserErrorResultDetails (test_options\<lparr>errorCode := None, errorMessage := Some []\<rparr>)) = []
   \<and> formatErrorResult (new_UserErrorResultDetails (test_options\<lparr>errorCode := None, errorMessage := Some []\<rparr>))
      = ''Domain.App.Service.op -  - ''"
  by (simp add: formatErrorResult_def get_context_def get_errorCode_def get_errorMessage_def
      formatStandardCallerContext_def test_options_def test_context_def
      new_UserErrorResultDetails_def new_AbstractErrorResultDetails_def)

section \<open>The catching families\<close>

lemma bind_returns: "m w = (Inr r, w') \<Longrightarrow> bind m k w = k r w'"
  by (simp add: bind_def)

lemma bind_throws: "m w = (Inl x, w') \<Longrightarrow> bind m k w = (Inl x, w')"
  by (simp add: bind_def)

lemma try_catch_returns: "m w = (Inr r, w') \<Longrightarrow> try_catch m h w = (Inr r, w')"
  by (simp add: try_catch_def)

lemma try_catch_throws: "m w = (Inl x, w') \<Longrightarrow> try_catch m h w = h x w'"
  by (simp add: try_catch_def)

lemma convertibleE: "convertible x \<Longrightarrow> \<exists>m. toErrorString x = Inr m"
  by (cases "toErrorString x") (simp_all add: convertible_def)

lemma convertible_string [simp]: "convertible (JSString s)"
  by (simp add: convertible_def toErrorString_def isString_def)

lemma convertible_Error:
  "convertible (JSObject (ErrorInstance af m n st c) j s) \<longleftrightarrow> (\<exists>r. JSON_stringify c = Inr r)"
  by (cases "JSON_stringify c")
     (simp_all add: convertible_def toErrorString_def isString_def JSON_stringify_object_def
        split: option.splits sum.splits)





lemma toErrorString_undefined: "toErrorString JSUndefined = Inr None"
  by (simp add: toErrorString_def isString_def)

lemma toErrorString_Error_BigInt_cause:
  "toErrorString (new_Error m st (JSBigInt n)) = Inl (new_TypeError ''Do not know how to serialize a BigInt'')"
  by (simp add: toErrorString_def isString_def new_Error_def JSON_stringify_object_def
      split: option.splits)

lemma error_calls_logged:
  "error_calls (logged s ps w)
     = error_calls w @ [\<lparr>level = ConsoleError, arguments = JSString s # ps\<rparr>]"
  by (simp add: error_calls_def logged_def)

subsection \<open>What the catching operations do with an exception of the callback\<close>

lemma mapNoCatch_propagates:
  "onOk v w = (Inl x, w1) \<Longrightarrow> mapNoCatch (OkResult v) onOk w = (Inl x, w1)"
  by (simp add: bind_throws)

lemma mapCatch_hands_over:
  "onOk v w = (Inl x, w1) \<Longrightarrow> mapCatch (OkResult v) onOk errorResultFactory w = errorResultFactory x w1"
  by (simp add: bind_throws try_catch_throws)

lemma mapCatchDefault_hands_over:
  "onOk v w = (Inl x, w1) \<Longrightarrow>
   mapCatchDefault (OkResult v) lp onOk w
     = technicalError (asFactoryOptions lp) (Some ''UNEXPECTED'') x [] w1"
  by (simp add: bind_throws try_catch_throws)

lemma mapCatchDefault_catches:
  assumes "onOk v w = (Inl x, w1)" and "toErrorString x = Inr m"
  shows "\<exists>s. mapCatchDefault (OkResult v) lp onOk w =
     (Inr (ErrorResult (TechnicalErrorResultDetails
        \<lparr>p_context = context' lp, p_errorMessage = m, p_errorCode = Some ''UNEXPECTED'',
         p_errorInstanceId = errorInstanceId lp, p_correlationId = correlationId lp\<rparr>)),
      logged s [JSString ''ErrorCode: UNEXPECTED''] w1)"
  using technicalError_returns [OF assms(2), of "asFactoryOptions lp" "Some ''UNEXPECTED''" w1]
    mapCatchDefault_hands_over [of onOk v w x w1 lp] assms(1)
  by (simp add: asFactoryOptions_def template_def)

lemma technicalError_caught:
  "caught_with_code x code (fst (technicalError opts code x [] w :: (jsvalue + 'v Result) \<times> world))"
proof (cases "toErrorString x")
  case (Inl t)
  then show ?thesis by (simp add: technicalError_throws caught_with_code_def)
next
  case (Inr m)
  obtain r :: "'v Result" and s where
    "technicalError opts code x [] w = (Inr r, if log' opts = Some False then w
        else logged s [JSString (''ErrorCode: '' @ template code)] w)"
    "r = ErrorResult (TechnicalErrorResultDetails
        \<lparr>p_context = context' opts, p_errorMessage = m, p_errorCode = code,
         p_errorInstanceId = errorInstanceId opts, p_correlationId = correlationId opts\<rparr>)"
    using technicalError_returns [OF Inr] by blast
  then show ?thesis by (simp add: caught_with_code_def get_errorCode_def)
qed

lemma fromErrorObject_caught:
  "caught_with_code x None (fst (fromErrorObject lp x w :: (jsvalue + 'v Result) \<times> world))"
proof (cases "toErrorString x")
  case (Inl t)
  then show ?thesis by (simp add: fromErrorObject_throws caught_with_code_def)
next
  case (Inr m)
  obtain r :: "'v Result" and s where
    "fromErrorObject lp x w = (Inr r, logged s [JSString ''ErrorCode: undefined''] w)"
    "r = ErrorResult
        ((if \<not> (isNullOrUndefined x \<or> \<not> isTypeOfObject x) \<and> AssertionFailedError_isInstance x
          then AssertionFailedErrorResultDetails else TechnicalErrorResultDetails)
        \<lparr>p_context = context' lp, p_errorMessage = m, p_errorCode = None,
         p_errorInstanceId = errorInstanceId lp, p_correlationId = correlationId lp\<rparr>)"
    using fromErrorObject_returns [OF Inr] by blast
  then show ?thesis by (simp add: caught_with_code_def get_errorCode_def)
qed

text \<open>C1, where the code departs from it. An \<open>Error\<close> whose cause is a BigInt cannot be
  serialized: \<open>mapCatchDefault\<close> throws the \<open>TypeError\<close> of the serialization to its caller
  and logs nothing. And a callback that throws \<open>undefined\<close> yields technical error details
  with no message of their own, so the accessor returns the default message.\<close>

theorem mapCatchDefault_failing_inputs:
  "mapCatchDefault (OkResult (42 :: nat)) test_logProperties
       (\<lambda>v. throw (new_Error ''boom'' None (JSBigInt 10)) :: nat action) test_world
     = (Inl (new_TypeError ''Do not know how to serialize a BigInt''), test_world)
   \<and> (case fst (mapCatchDefault (OkResult (42 :: nat)) test_logProperties
                  (\<lambda>v. throw JSUndefined :: nat action) test_world) of
         Inl t \<Rightarrow> False
       | Inr (OkResult u) \<Rightarrow> False
       | Inr (ErrorResult d) \<Rightarrow>
           TechnicalErrorResultDetails_isInstance d \<and> get_errorCode d = Some ''UNEXPECTED''
           \<and> p_errorMessage (base d) = None
           \<and> get_errorMessage d = ''Sorry, something went wrong.'')"
proof
  have "(throw (new_Error ''boom'' None (JSBigInt 10)) :: nat action) test_world
      = (Inl (new_Error ''boom'' None (JSBigInt 10)), test_world)"
    by (simp add: throw_def)
  from mapCatchDefault_hands_over
    [of "\<lambda>v. throw (new_Error ''boom'' None (JSBigInt 10))" 42 test_world
        "new_Error ''boom'' None (JSBigInt 10)" test_world test_logProperties] this
  show "mapCatchDefault (OkResult (42 :: nat)) test_logProperties
       (\<lambda>v. throw (new_Error ''boom'' None (JSBigInt 10)) :: nat action) test_world
     = (Inl (new_TypeError ''Do not know how to serialize a BigInt''), test_world)"
    by (simp add: technicalError_throws [OF toErrorString_Error_BigInt_cause])
next
  have t: "(throw JSUndefined :: nat action) test_world = (Inl JSUndefined, test_world)"
    by (simp add: throw_def)
  obtain s where "mapCatchDefault (OkResult (42 :: nat)) test_logProperties
       (\<lambda>v. throw JSUndefined :: nat action) test_world =
     (Inr (ErrorResult (TechnicalErrorResultDetails
        \<lparr>p_context = context' test_logProperties, p_errorMessage = None,
         p_errorCode = Some ''UNEXPECTED'',
         p_errorInstanceId = errorInstanceId test_logProperties,
         p_correlationId = correlationId test_logProperties\<rparr>)),
      logged s [JSString ''ErrorCode: UNEXPECTED''] test_world)"
    using mapCatchDefault_catches
      [of "\<lambda>v. throw JSUndefined" 42 test_world JSUndefined test_world None test_logProperties]
      t toErrorString_undefined
    by blast
  then show "case fst (mapCatchDefault (OkResult (42 :: nat)) test_logProperties
                  (\<lambda>v. throw JSUndefined :: nat action) test_world) of
         Inl t \<Rightarrow> False
       | Inr (OkResult u) \<Rightarrow> False
       | Inr (ErrorResult d) \<Rightarrow>
           TechnicalErrorResultDetails_isInstance d \<and> get_errorCode d = Some ''UNEXPECTED''
           \<and> p_errorMessage (base d) = None
           \<and> get_errorMessage d = ''Sorry, something went wrong.''"
    by (simp add: get_errorCode_def get_errorMessage_def defaultErrorMessage_def)
qed

text \<open>C4, where the code departs from it. For the caught value \<open>undefined\<close> the result
  carries technical error details, but nothing of the caught value is in the message:
  \<open>toErrorString\<close> returned \<open>undefined\<close>, the details have no message and the accessor
  returns the default. For an \<open>Error\<close> whose cause is a BigInt no result is returned at
  all: the \<open>TypeError\<close> of the serialization is thrown.\<close>

theorem fromErrorObject_failing_inputs:
  "(case fst (fromErrorObject test_logProperties JSUndefined test_world
               :: (jsvalue + nat Result) \<times> world) of
      Inl t \<Rightarrow> False
    | Inr (OkResult u) \<Rightarrow> False
    | Inr (ErrorResult d) \<Rightarrow>
        TechnicalErrorResultDetails_isInstance d \<and> p_errorMessage (base d) = None
        \<and> get_errorMessage d = ''Sorry, something went wrong.'')
   \<and> (fromErrorObject test_logProperties (new_Error ''boom'' None (JSBigInt 10)) test_world
         :: (jsvalue + nat Result) \<times> world)
      = (Inl (new_TypeError ''Do not know how to serialize a BigInt''), test_world)"
proof
  obtain s where "(fromErrorObject test_logProperties JSUndefined test_world
       :: (jsvalue + nat Result) \<times> world) =
     (Inr (ErrorResult
        ((if \<not> (isNullOrUndefined JSUndefined \<or> \<not> isTypeOfObject JSUndefined)
              \<and> AssertionFailedError_isInstance JSUndefined
          then AssertionFailedErrorResultDetails else TechnicalErrorResultDetails)
        \<lparr>p_context = context' test_logProperties, p_errorMessage = None, p_errorCode = None,
         p_errorInstanceId = errorInstanceId test_logProperties,
         p_correlationId = correlationId test_logProperties\<rparr>)),
      logged s [JSString ''ErrorCode: undefined''] test_world)"
    using fromErrorObject_returns [OF toErrorString_undefined] by blast
  then show "case fst (fromErrorObject test_logProperties JSUndefined test_world
               :: (jsvalue + nat Result) \<times> world) of
      Inl t \<Rightarrow> False
    | Inr (OkResult u) \<Rightarrow> False
    | Inr (ErrorResult d) \<Rightarrow>
        TechnicalErrorResultDetails_isInstance d \<and> p_errorMessage (base d) = None
        \<and> get_errorMessage d = ''Sorry, something went wrong.''"
    by (simp add: isNullOrUndefined_def get_errorMessage_def defaultErrorMessage_def)
next
  show "(fromErrorObject test_logProperties (new_Error ''boom'' None (JSBigInt 10)) test_world
         :: (jsvalue + nat Result) \<times> world)
      = (Inl (new_TypeError ''Do not know how to serialize a BigInt''), test_world)"
    by (rule fromErrorObject_throws [OF toErrorString_Error_BigInt_cause])
qed


subsection \<open>Try, catch and await\<close>


lemma bind_await_throws_iff:
  "bind fn await w = (Inl x, w') \<longleftrightarrow> fn w = (Inl x, w') \<or> fn w = (Inr (Rejected x), w')"
proof (cases "fn w")
  case (Pair c w'')
  show ?thesis
  proof (cases c)
    case (Inl t)
    with Pair show ?thesis by (simp add: bind_def)
  next
    case (Inr p)
    with Pair show ?thesis by (cases p) (auto simp: bind_def return_def throw_def)
  qed
qed




lemma settled_async: "settled (fst (async m w)) = fst (m w)"
  by (cases "m w") (auto simp: async_def split: sum.splits)

subsection \<open>The catching calls, one by one\<close>














lemma convertible_test_error: "convertible (new_Error ''bad'' None JSUndefined)"
  by (simp add: new_Error_def convertible_Error)

lemma test_throwing_convertibly: "throws_convertibly (test_throwing w)"
  by (simp add: test_throwing_def throw_def throws_convertibly_def convertible_test_error)

lemma test_rejecting_convertibly: "rejects_convertibly (test_rejecting w)"
  by (simp add: test_rejecting_def return_def rejects_convertibly_def convertible_test_error)


lemma example_factory_throws:
  "(example_factory (new_Error m st (JSBigInt n)) w :: (jsvalue + 'v Result) \<times> world)
     = (Inl (new_TypeError ''Do not know how to serialize a BigInt''), w)"
  unfolding example_factory_def
  by (rule technicalError_throws [OF toErrorString_Error_BigInt_cause])




subsection \<open>Where a catching call hands the exception over\<close>

lemma tryCatchDefault_hands_over:
  "fn w = (Inl x, w1) \<Longrightarrow> tryCatchDefault lp fn w = fromErrorObject lp x w1"
  by (simp add: tryCatchDefault_def bind_throws try_catch_throws)

lemma tryCatchDefaultAsync_hands_over:
  "afn w = (Inl x, w1) \<or> afn w = (Inr (Rejected x), w1) \<Longrightarrow>
   tryCatchDefaultAsync lp afn w = async (fromErrorObject lp x) w1"
proof -
  assume "afn w = (Inl x, w1) \<or> afn w = (Inr (Rejected x), w1)"
  then have "bind afn await w = (Inl x, w1)" by (simp add: bind_await_throws_iff)
  then have "bind (bind afn await) (\<lambda>v. return (ok v)) w = (Inl x, w1)" by (rule bind_throws)
  then show ?thesis by (simp add: tryCatchDefaultAsync_def async_def try_catch_throws)
qed

lemma andThenCatchDefault_hands_over:
  "onOk v w = (Inl x, w1) \<Longrightarrow>
   andThenCatchDefault (OkResult v) lp onOk w
     = technicalError (asFactoryOptions lp) (Some ''UNEXPECTED'') x [] w1"
  by (simp add: try_catch_throws)

lemma orElseCatchDefault_hands_over:
  "onError e w = (Inl x, w1) \<Longrightarrow>
   orElseCatchDefault (ErrorResult e) lp onError w
     = technicalError (asFactoryOptions lp) (Some ''UNEXPECTED'') x [] w1"
  by (simp add: try_catch_throws)

lemma foldCatchDefault_hands_over:
  "onOk v w = (Inl x, w1) \<Longrightarrow>
   foldCatchDefault (OkResult v) lp onOk onError w
     = bind (technicalError (asFactoryOptions lp) (Some ''UNEXPECTED'') x []) (\<lambda>r. return (Built r)) w1"
  by (simp add: bind_throws try_catch_throws)

lemma caught_Built:
  "caught_with_code x code (fst (m w)) \<Longrightarrow>
   (case fst (bind m (\<lambda>r. return (Built r)) w) of
      Inl t \<Rightarrow> toErrorString x = Inl t
    | Inr (Plain p) \<Rightarrow> False
    | Inr (Built r) \<Rightarrow> caught_with_code x code (Inr r))"
  by (cases "m w") (auto simp: bind_def return_def caught_with_code_def split: sum.splits)


text \<open>C10. Whatever value is caught, a result that \<open>fromErrorObject\<close> returns is an
  \<open>ErrorResult\<close> whose details have no error code, and so is the result of
  \<open>tryCatchDefault\<close>, \<open>tryCatchDefaultAsync\<close>, \<open>wrapDefault\<close> and \<open>wrapDefaultAsync\<close>
  after the function threw (or its promise was rejected). The result that \<open>mapCatchDefault\<close>,
  \<open>andThenCatchDefault\<close>, \<open>orElseCatchDefault\<close> and \<open>foldCatchDefault\<close> return after
  their callback threw carries the error code \<open>UNEXPECTED\<close>. Each of these calls returns
  unless the conversion of the caught value itself throws.\<close>

theorem default_path_error_codes:
  fixes fn :: "'v action" and foldOk :: "'v \<Rightarrow> 'r action" and onOk :: "'v \<Rightarrow> 'u action"
  shows
  "caught_with_code err None (fst (fromErrorObject lp err w :: (jsvalue + 'v Result) \<times> world))
   \<and> (fn w = (Inl x, w1) \<longrightarrow> caught_with_code x None (fst (tryCatchDefault lp fn w)))
   \<and> (wfn args w = (Inl x, w1) \<longrightarrow> caught_with_code x None (fst (wrapDefault lp wfn args w)))
   \<and> (afn w = (Inl x, w1) \<or> afn w = (Inr (Rejected x), w1) \<longrightarrow>
        caught_with_code x None (settled (fst (tryCatchDefaultAsync lp afn w))))
   \<and> (wafn args w = (Inl x, w1) \<or> wafn args w = (Inr (Rejected x), w1) \<longrightarrow>
        caught_with_code x None (settled (fst (wrapDefaultAsync lp wafn args w))))
   \<and> (onOk v w = (Inl x, w1) \<longrightarrow>
        caught_with_code x (Some ''UNEXPECTED'') (fst (mapCatchDefault (OkResult v) lp onOk w)))
   \<and> (onOkResult v w = (Inl x, w1) \<longrightarrow>
        caught_with_code x (Some ''UNEXPECTED'') (fst (andThenCatchDefault (OkResult v) lp onOkResult w)))
   \<and> (onError e w = (Inl x, w1) \<longrightarrow>
        caught_with_code x (Some ''UNEXPECTED'') (fst (orElseCatchDefault (ErrorResult e) lp onError w)))
   \<and> (foldOk v w = (Inl x, w1) \<longrightarrow>
        (case fst (foldCatchDefault (OkResult v) lp foldOk foldErr w
                   :: (jsvalue + ('r, 'u) folded) \<times> world) of
           Inl t \<Rightarrow> toErrorString x = Inl t
         | Inr (Plain p) \<Rightarrow> False
         | Inr (Built r) \<Rightarrow> caught_with_code x (Some ''UNEXPECTED'') (Inr r)))"
proof (intro conjI impI)
  show "caught_with_code err None (fst (fromErrorObject lp err w :: (jsvalue + 'v Result) \<times> world))"
    by (rule fromErrorObject_caught)
next
  assume "fn w = (Inl x, w1)"
  then show "caught_with_code x None (fst (tryCatchDefault lp fn w))"
    by (simp add: tryCatchDefault_hands_over fromErrorObject_caught)
next
  assume "wfn args w = (Inl x, w1)"
  then show "caught_with_code x None (fst (wrapDefault lp wfn args w))"
    by (simp add: wrapDefault_def tryCatchDefault_hands_over fromErrorObject_caught)
next
  assume "afn w = (Inl x, w1) \<or> afn w = (Inr (Rejected x), w1)"
  then show "caught_with_code x None (settled (fst (tryCatchDefaultAsync lp afn w)))"
    by (simp only: tryCatchDefaultAsync_hands_over settled_async fromErrorObject_caught)
next
  assume "wafn args w = (Inl x, w1) \<or> wafn args w = (Inr (Rejected x), w1)"
  then show "caught_with_code x None (settled (fst (wrapDefaultAsync lp wafn args w)))"
    by (simp only: wrapDefaultAsync_def tryCatchDefaultAsync_hands_over settled_async
        fromErrorObject_caught)
next
  assume "onOk v w = (Inl x, w1)"
  then show "caught_with_code x (Some ''UNEXPECTED'') (fst (mapCatchDefault (OkResult v) lp onOk w))"
    by (simp only: mapCatchDefault_hands_over technicalError_caught)
next
  assume "onOkResult v w = (Inl x, w1)"
  then show "caught_with_code x (Some ''UNEXPECTED'')
      (fst (andThenCatchDefault (OkResult v) lp onOkResult w))"
    by (simp only: andThenCatchDefault_hands_over technicalError_caught)
next
  assume "onError e w = (Inl x, w1)"
  then show "caught_with_code x (Some ''UNEXPECTED'')
      (fst (orElseCatchDefault (ErrorResult e) lp onError w))"
    by (simp only: orElseCatchDefault_hands_over technicalError_caught)
next
  assume "foldOk v w = (Inl x, w1)"
  then have eq: "(foldCatchDefault (OkResult v) lp foldOk foldErr w
       :: (jsvalue + ('r, 'u) folded) \<times> world)
     = bind (technicalError (asFactoryOptions lp) (Some ''UNEXPECTED'') x [])
         (\<lambda>r. return (Built r)) w1"
    by (rule foldCatchDefault_hands_over)
  show "case fst (foldCatchDefault (OkResult v) lp foldOk foldErr w
                   :: (jsvalue + ('r, 'u) folded) \<times> world) of
           Inl t \<Rightarrow> toErrorString x = Inl t
         | Inr (Plain p) \<Rightarrow> False
         | Inr (Built r) \<Rightarrow> caught_with_code x (Some ''UNEXPECTED'') (Inr r)"
    unfolding eq by (rule caught_Built) (rule technicalError_caught)
qed


theorem default_path_error_codes_witness:
  "(test_throwing :: nat action) test_world = (Inl (new_Error ''bad'' None JSUndefined), test_world)
   \<and> (test_rejecting :: nat promise action) test_world
       = (Inr (Rejected (new_Error ''bad'' None JSUndefined)), test_world)
   \<and> caught_with_code (new_Error ''bad'' None JSUndefined) None
        (fst (fromErrorObject test_logProperties (new_Error ''bad'' None JSUndefined) test_world
              :: (jsvalue + nat Result) \<times> world))
   \<and> caught_with_code (new_Error ''bad'' None JSUndefined) None
        (fst (tryCatchDefault test_logProperties (test_throwing :: nat action) test_world))
   \<and> caught_with_code (new_Error ''bad'' None JSUndefined) None
        (fst (wrapDefault test_logProperties (\<lambda>a :: unit. test_throwing :: nat action) () test_world))
   \<and> caught_with_code (new_Error ''bad'' None JSUndefined) None
        (settled (fst (tryCatchDefaultAsync test_logProperties
           (test_rejecting :: nat promise action) test_world)))
   \<and> caught_with_code (new_Error ''bad'' None JSUndefined) None
        (settled (fst (wrapDefaultAsync test_logProperties
           (\<lambda>a :: unit. test_rejecting :: nat promise action) () test_world)))
   \<and> caught_with_code (new_Error ''bad'' None JSUndefined) (Some ''UNEXPECTED'')
        (fst (mapCatchDefault (OkResult (42 :: nat)) test_logProperties
           (\<lambda>u. test_throwing :: nat action) test_world))
   \<and> caught_with_code (new_Error ''bad'' None JSUndefined) (Some ''UNEXPECTED'')
        (fst (andThenCatchDefault (OkResult (42 :: nat)) test_logProperties
           (\<lambda>u. test_throwing :: nat Result action) test_world))
   \<and> caught_with_code (new_Error ''bad'' None JSUndefined) (Some ''UNEXPECTED'')
        (fst (orElseCatchDefault (ErrorResult (new_UserErrorResultDetails test_options) :: nat Result)
           test_logProperties (\<lambda>d. test_throwing) test_world))"
  using default_path_error_codes
    [where fn = "test_throwing :: nat action"
       and afn = "test_rejecting :: nat promise action"
       and wfn = "\<lambda>a :: unit. test_throwing :: nat action"
       and wafn = "\<lambda>a :: unit. test_rejecting :: nat promise action"
       and args = "()"
       and w = test_world
       and ?w1.0 = test_world
       and lp = test_logProperties
       and x = "new_Error ''bad'' None JSUndefined"
       and err = "new_Error ''bad'' None JSUndefined"
       and v = "42 :: nat"
       and e = "new_UserErrorResultDetails test_options"
       and onOk = "\<lambda>u. test_throwing :: nat action"
       and onOkResult = "\<lambda>u. test_throwing :: nat Result action"
       and onError = "\<lambda>d. test_throwing :: nat Result action"
       and foldOk = "\<lambda>u. test_throwing :: nat action"
       and foldErr = "\<lambda>d. return 0 :: nat action"]
  by (simp add: test_throwing_def test_rejecting_def throw_def return_def)

section \<open>Examples and the scenarios of the tests\<close>

lemma toErrorString_examples:
  "toErrorString (JSString ''bad'') = Inr (Some ''bad'')"
  "toErrorString JSNull = Inr (Some ''null'')"
  "toErrorString (JSNumber ''42'') = Inr (Some ''42'')"
  "toErrorString (JSBigInt 10) = Inr (Some ''10'')"
  "toErrorString (JSObject PlainObject (Inl (new_TypeError ''Converting circular structure to JSON''))
       (Inr ''[object Object]'')) = Inr (Some ''[object Object]'')"
  "toErrorString (new_Error ''bad'' None JSUndefined)
     = Inr (Some (''{'' @ [CHR 0x22] @ ''message'' @ [CHR 0x22] @ '':'' @ [CHR 0x22] @ ''bad'' @ [CHR 0x22]
          @ '','' @ [CHR 0x22] @ ''name'' @ [CHR 0x22] @ '':'' @ [CHR 0x22] @ ''Error'' @ [CHR 0x22] @ ''}''))"
  by (simp_all add: toErrorString_def isString_def new_Error_def JSON_stringify_object_def
      QuoteJSONString_def json_escape_def decimal_int_def decimal_nat.simps digit_def Let_def)

lemma fromErrorObject_classifies:
  assumes "toErrorString x = Inr m"
  shows "\<exists>d s. fromErrorObject lp x w = (Inr (ErrorResult d), logged s [JSString ''ErrorCode: undefined''] w)
     \<and> p_errorMessage (base d) = m
     \<and> (if \<not> isNullOrUndefined x \<and> isTypeOfObject x \<and> AssertionFailedError_isInstance x
         then AssertionFailedErrorResultDetails_isInstance d
         else TechnicalErrorResultDetails_isInstance d)"
  using fromErrorObject_returns [OF assms, of lp w] by auto

lemma tryCatchDefault_classifies:
  assumes "fn w = (Inl x, w1)" and "toErrorString x = Inr m"
  shows "\<exists>d s. tryCatchDefault lp fn w = (Inr (ErrorResult d), logged s [JSString ''ErrorCode: undefined''] w1)
     \<and> p_errorMessage (base d) = m
     \<and> (if \<not> isNullOrUndefined x \<and> isTypeOfObject x \<and> AssertionFailedError_isInstance x
         then AssertionFailedErrorResultDetails_isInstance d
         else TechnicalErrorResultDetails_isInstance d)"
  using fromErrorObject_classifies [OF assms(2), of lp w1]
    tryCatchDefault_hands_over [of fn w x w1 lp] assms(1)
  by simp

text \<open>The scenarios of the repository's tests of \<open>tryCatchDefault\<close>: a function that
  returns, one that throws the string \<open>bad\<close>, one that throws an \<open>AssertionFailedError\<close>,
  one that throws an \<open>Error\<close>.\<close>

lemma tryCatchDefault_scenarios:
  "fst (tryCatchDefault test_logProperties (return (42 :: nat)) test_world) = Inr (OkResult 42)"
  "\<exists>d w'. tryCatchDefault test_logProperties (throw (JSString ''bad'') :: nat action) test_world
            = (Inr (ErrorResult d), w')
     \<and> TechnicalErrorResultDetails_isInstance d \<and> get_errorMessage d = ''bad''"
  "\<exists>d w'. tryCatchDefault test_logProperties
            (throw (new_AssertionFailedError ''bad'' None) :: nat action) test_world
            = (Inr (ErrorResult d), w')
     \<and> AssertionFailedErrorResultDetails_isInstance d"
  "\<exists>d w'. tryCatchDefault test_logProperties (test_throwing :: nat action) test_world
            = (Inr (ErrorResult d), w')
     \<and> TechnicalErrorResultDetails_isInstance d"
proof -
  show "fst (tryCatchDefault test_logProperties (return (42 :: nat)) test_world) = Inr (OkResult 42)"
    by (simp add: tryCatchDefault_def try_catch_def bind_def return_def ok_def)
next
  have t: "(throw (JSString ''bad'') :: nat action) test_world = (Inl (JSString ''bad''), test_world)"
    by (simp add: throw_def)
  have c: "toErrorString (JSString ''bad'') = Inr (Some ''bad'')"
    by (simp add: toErrorString_def isString_def)
  show "\<exists>d w'. tryCatchDefault test_logProperties (throw (JSString ''bad'') :: nat action) test_world
            = (Inr (ErrorResult d), w')
     \<and> TechnicalErrorResultDetails_isInstance d \<and> get_errorMessage d = ''bad''"
    using tryCatchDefault_classifies
      [of "throw (JSString ''bad'')" test_world "JSString ''bad''" test_world "Some ''bad''"
          test_logProperties, OF t c]
    by (auto simp: isTypeOfObject_def get_errorMessage_def)
next
  let ?e = "new_AssertionFailedError ''bad'' None"
  have t: "(throw ?e :: nat action) test_world = (Inl ?e, test_world)" by (simp add: throw_def)
  have "convertible ?e" by (simp add: new_AssertionFailedError_def convertible_Error)
  then obtain m where c: "toErrorString ?e = Inr m" using convertibleE by blast
  have k: "\<not> isNullOrUndefined ?e \<and> isTypeOfObject ?e \<and> AssertionFailedError_isInstance ?e"
    by (simp add: isTypeOfObject_def isNullOrUndefined_def AssertionFailedError_isInstance_def
        isInstanceOf_def new_AssertionFailedError_def)
  show "\<exists>d w'. tryCatchDefault test_logProperties (throw ?e :: nat action) test_world
            = (Inr (ErrorResult d), w')
     \<and> AssertionFailedErrorResultDetails_isInstance d"
    using tryCatchDefault_classifies [of "throw ?e" test_world ?e test_world m test_logProperties, OF t c] k
    by auto
next
  let ?e = "new_Error ''bad'' None JSUndefined"
  have t: "(test_throwing :: nat action) test_world = (Inl ?e, test_world)"
    by (simp add: test_throwing_def throw_def)
  obtain m where c: "toErrorString ?e = Inr m" using convertible_test_error convertibleE by blast
  have k: "\<not> AssertionFailedError_isInstance ?e"
    by (simp add: isTypeOfObject_def isNullOrUndefined_def AssertionFailedError_isInstance_def
        isInstanceOf_def new_Error_def)
  show "\<exists>d w'. tryCatchDefault test_logProperties (test_throwing :: nat action) test_world
            = (Inr (ErrorResult d), w')
     \<and> TechnicalErrorResultDetails_isInstance d"
    using tryCatchDefault_classifies [of test_throwing test_world ?e test_world m test_logProperties, OF t c] k
    by auto
qed

end
